theory Spec2Isabelle
  imports Complex_Main
begin

section \<open>Data model of the affection register\<close>

text \<open>
  The register of \<^verbatim>\<open>eos/fit/calculator/register.py\<close> indexes Python objects by
  identity. An item is modelled by a handle; what the register reads from an item
  (\<^verbatim>\<open>_type_id\<close>, \<^verbatim>\<open>_modifier_domain\<close>, \<^verbatim>\<open>_type.group_id\<close>,
  \<^verbatim>\<open>_type.required_skills\<close>, \<^verbatim>\<open>_owner_modifiable\<close>, \<^verbatim>\<open>_others\<close>) and from the
  calculation service (\<^verbatim>\<open>_current_ship\<close>, \<^verbatim>\<open>_current_char\<close>) is collected in the
  record \<open>Fit\<close>.
\<close>

type_synonym item = nat

text \<open>
  \<^verbatim>\<open>ModDomain\<close> and \<^verbatim>\<open>ModTgtFilter\<close> are enumerations of \<^verbatim>\<open>eos.const.eos\<close>. A
  modifier may carry any other value in these fields (the test
  \<^verbatim>\<open>test_dom_unknown.py\<close> uses \<^verbatim>\<open>tgt_domain=1972\<close>); such a value is
  \<open>Domain_unknown n\<close>, respectively \<open>Filter_unknown n\<close>.
\<close>

datatype ModDomain =
  Domain_self | Domain_character | Domain_ship | Domain_other | Domain_unknown int

datatype ModTgtFilter =
  Filter_item | Filter_domain | Filter_domain_group | Filter_domain_skillrq
  | Filter_owner_skillrq | Filter_unknown int

text \<open>
  A modifier has the seven fields of the spec's data model; the register reads
  \<^verbatim>\<open>tgt_filter\<close>, \<^verbatim>\<open>tgt_domain\<close> and \<^verbatim>\<open>tgt_filter_extra_arg\<close> (a group id or a
  skill type id, or \<^verbatim>\<open>None\<close>). An affector is the pair of a carrier item and one of
  its modifiers.
\<close>

record DogmaModifier =
  state :: nat
  tgt_filter :: ModTgtFilter
  tgt_domain :: ModDomain
  tgt_attr :: int
  tgt_filter_extra_arg :: "int option"
  operator :: int
  src_attr :: int

record Affector =
  carrier_item :: item
  modifier :: DogmaModifier

text \<open>
  \<open>required_skills\<close> lists the keys of \<^verbatim>\<open>_type.required_skills\<close> and \<open>others\<close> the
  elements of the set \<^verbatim>\<open>_others\<close>, in some order. \<open>current_self\<close> is the constant
  \<^verbatim>\<open>EosTypeId.current_self\<close> of \<^verbatim>\<open>eos.const.eos\<close>, which is not among the source
  files: an extra argument equal to it stands for the type of the carrier.
\<close>

record Fit =
  current_ship :: "item option"
  current_char :: "item option"
  type_id :: "item \<Rightarrow> int"
  modifier_domain :: "item \<Rightarrow> ModDomain option"
  group_id :: "item \<Rightarrow> int option"
  required_skills :: "item \<Rightarrow> int list"
  owner_modifiable :: "item \<Rightarrow> bool"
  others :: "item \<Rightarrow> item list"
  current_self :: int

text \<open>
  The two exceptions of \<^verbatim>\<open>eos/fit/calculator/exception.py\<close> that the register
  raises, with their argument, and the two warnings that
  \<^verbatim>\<open>__handle_affector_errors\<close> logs, with the arguments of their format string:
  \<^verbatim>\<open>'malformed modifier on item type {}: unsupported target domain {}'\<close> and
  \<^verbatim>\<open>'malformed modifier on item type {}: invalid target filter {}'\<close>.
\<close>

datatype error = UnexpectedDomainError ModDomain | UnknownTgtFilterError ModTgtFilter

datatype log_record =
  Warning_unsupported_target_domain int ModDomain
  | Warning_invalid_target_filter int ModTgtFilter

fun log_type_id :: "log_record \<Rightarrow> int" where
  "log_type_id (Warning_unsupported_target_domain t d) = t"
| "log_type_id (Warning_invalid_target_filter t f) = t"

subsection \<open>KeyedStorage\<close>

text \<open>
  The class \<^verbatim>\<open>KeyedStorage\<close> of \<^verbatim>\<open>eos.util.keyed_storage\<close> is not among the source
  files. The comments of \<^verbatim>\<open>__init__\<close> and the spec describe every index as a
  dictionary from a key to a set, \<^verbatim>\<open>{key: set(values)}\<close>, and the spec demands that
  adding and removing leaves the indices identical to what they were; so an entry
  whose set becomes empty is deleted with its key. The methods modelled are those that
  \<^verbatim>\<open>register.py\<close> calls.
\<close>

type_synonym ('k, 'v) KeyedStorage = "'k \<rightharpoonup> 'v set"

definition get_data :: "('k, 'v) KeyedStorage \<Rightarrow> 'k \<Rightarrow> 'v set" where
  \<comment> \<open>Modelled from the spec: \<^verbatim>\<open>storage.get(key, ())\<close> of the missing class
      \<^verbatim>\<open>KeyedStorage\<close>, the set under the key, empty when the key is absent.\<close>
  "get_data m k = (case m k of None \<Rightarrow> {} | Some s \<Rightarrow> s)"

definition add_data_entry :: "('k, 'v) KeyedStorage \<Rightarrow> 'k \<Rightarrow> 'v \<Rightarrow> ('k, 'v) KeyedStorage" where
  \<comment> \<open>Modelled from the spec: \<^verbatim>\<open>add_data_entry\<close> of the missing class \<^verbatim>\<open>KeyedStorage\<close>
      adds one value to the set under the key, which it creates when absent.\<close>
  "add_data_entry m k d = m(k \<mapsto> insert d (get_data m k))"

definition rm_data_entry :: "('k, 'v) KeyedStorage \<Rightarrow> 'k \<Rightarrow> 'v \<Rightarrow> ('k, 'v) KeyedStorage" where
  \<comment> \<open>Modelled from the spec: \<^verbatim>\<open>rm_data_entry\<close> of the missing class \<^verbatim>\<open>KeyedStorage\<close>
      removes one value from the set under the key, if there is one, and deletes the
      key when the set is empty afterwards.\<close>
  "rm_data_entry m k d =
     (case m k of
        None \<Rightarrow> m
      | Some s \<Rightarrow> if s - {d} = {} then m(k := None) else m(k \<mapsto> s - {d}))"

definition add_data_set :: "('k, 'v) KeyedStorage \<Rightarrow> 'k \<Rightarrow> 'v set \<Rightarrow> ('k, 'v) KeyedStorage" where
  \<comment> \<open>Modelled from the spec: \<^verbatim>\<open>add_data_set\<close> of the missing class \<^verbatim>\<open>KeyedStorage\<close>
      adds a set of values to the set under the key, which it creates when absent.\<close>
  "add_data_set m k ds = m(k \<mapsto> get_data m k \<union> ds)"

text \<open>
  Two loops of the register run over a Python set and call \<open>rm_data_entry\<close>,
  respectively \<open>add_data_entry\<close>, for each element \<open>d\<close> under the key \<open>f d\<close>. A set
  has no iteration order; the functions below give the storage after the loop, and
  \<open>rm_data_entries_fold\<close> and \<open>add_data_entries_fold\<close> show that every order of
  iteration ends there.
\<close>

definition rm_data_entries ::
  "('k, 'v) KeyedStorage \<Rightarrow> ('v \<Rightarrow> 'k) \<Rightarrow> 'v set \<Rightarrow> ('k, 'v) KeyedStorage" where
  "rm_data_entries m f D =
     (\<lambda>k. if (\<exists>d\<in>D. f d = k)
          then (case m k of
                  None \<Rightarrow> None
                | Some s \<Rightarrow> if s - {d \<in> D. f d = k} = {} then None
                            else Some (s - {d \<in> D. f d = k}))
          else m k)"

definition add_data_entries ::
  "('k, 'v) KeyedStorage \<Rightarrow> ('v \<Rightarrow> 'k) \<Rightarrow> 'v set \<Rightarrow> ('k, 'v) KeyedStorage" where
  "add_data_entries m f D =
     (\<lambda>k. if (\<exists>d\<in>D. f d = k) then Some (get_data m k \<union> {d \<in> D. f d = k}) else m k)"

subsection \<open>The register\<close>

record AffectionRegister =
  affectee :: "item set"
  affectee_domain :: "(ModDomain, item) KeyedStorage"
  affectee_domain_group :: "(ModDomain \<times> int option, item) KeyedStorage"
  affectee_domain_skillrq :: "(ModDomain \<times> int option, item) KeyedStorage"
  affectee_owner_skillrq :: "(int option, item) KeyedStorage"
  affector_item_other :: "(item, Affector) KeyedStorage"
  affector_item_awaitable :: "(item, Affector) KeyedStorage"
  affector_item_active :: "(item, Affector) KeyedStorage"
  affector_domain :: "(ModDomain, Affector) KeyedStorage"
  affector_domain_group :: "(ModDomain \<times> int option, Affector) KeyedStorage"
  affector_domain_skillrq :: "(ModDomain \<times> int option, Affector) KeyedStorage"
  affector_owner_skillrq :: "(int option, Affector) KeyedStorage"

definition init_register :: AffectionRegister where
  \<comment> \<open>\<^verbatim>\<open>__init__\<close>\<close>
  "init_register =
     \<lparr>affectee = {}, affectee_domain = Map.empty, affectee_domain_group = Map.empty,
      affectee_domain_skillrq = Map.empty, affectee_owner_skillrq = Map.empty,
      affector_item_other = Map.empty, affector_item_awaitable = Map.empty,
      affector_item_active = Map.empty, affector_domain = Map.empty,
      affector_domain_group = Map.empty, affector_domain_skillrq = Map.empty,
      affector_owner_skillrq = Map.empty\<rparr>"

text \<open>
  \<^verbatim>\<open>__get_affectee_storages\<close> and \<^verbatim>\<open>__get_affector_storages\<close> return lists of pairs
  (key, map). The map of a pair is one of the register's own; a pair is modelled by
  a constructor naming the map, applied to the key.
\<close>

datatype affectee_storage =
  In_affectee_domain ModDomain
  | In_affectee_domain_group "ModDomain \<times> int option"
  | In_affectee_domain_skillrq "ModDomain \<times> int option"
  | In_affectee_owner_skillrq "int option"

datatype affector_storage =
  In_affector_item_other item
  | In_affector_item_awaitable item
  | In_affector_item_active item
  | In_affector_domain ModDomain
  | In_affector_domain_group "ModDomain \<times> int option"
  | In_affector_domain_skillrq "ModDomain \<times> int option"
  | In_affector_owner_skillrq "int option"

subsection \<open>Shared helpers\<close>

definition get_registered_affectees :: "AffectionRegister \<Rightarrow> item list \<Rightarrow> item list" where
  \<comment> \<open>\<^verbatim>\<open>self.__affectee.intersection(items)\<close>, enumerated in the order of \<open>items\<close>\<close>
  "get_registered_affectees reg items = filter (\<lambda>i. i \<in> affectee reg) items"

definition contextize_tgt_filter_domain :: "Fit \<Rightarrow> Affector \<Rightarrow> error + ModDomain" where
  "contextize_tgt_filter_domain fit affector =
     (let carrier = carrier_item affector;
          domain = tgt_domain (modifier affector)
      in if domain = Domain_self then
           (if Some carrier = current_ship fit then Inr Domain_ship
            else if Some carrier = current_char fit then Inr Domain_character
            else Inl (UnexpectedDomainError domain))
         else if domain = Domain_character \<or> domain = Domain_ship then Inr domain
         else Inl (UnexpectedDomainError domain))"

definition handle_affector_errors :: "Fit \<Rightarrow> error \<Rightarrow> Affector \<Rightarrow> log_record list" where
  \<comment> \<open>the warnings logged; the model raises no exception but the two that are handled\<close>
  "handle_affector_errors fit e affector =
     (case e of
        UnexpectedDomainError d \<Rightarrow>
          [Warning_unsupported_target_domain (type_id fit (carrier_item affector)) d]
      | UnknownTgtFilterError f \<Rightarrow>
          [Warning_invalid_target_filter (type_id fit (carrier_item affector)) f])"

definition skill_type_id_of :: "Fit \<Rightarrow> Affector \<Rightarrow> int option" where
  \<comment> \<open>the extra argument, with \<^verbatim>\<open>EosTypeId.current_self\<close> replaced by the carrier's type\<close>
  "skill_type_id_of fit affector =
     (let skill_type_id = tgt_filter_extra_arg (modifier affector)
      in if skill_type_id = Some (current_self fit)
         then Some (type_id fit (carrier_item affector))
         else skill_type_id)"

subsection \<open>Affectee processing\<close>

definition get_affectees_item :: "Fit \<Rightarrow> AffectionRegister \<Rightarrow> Affector \<Rightarrow> error + item set" where
  "get_affectees_item fit reg affector =
     (case tgt_domain (modifier affector) of
        Domain_self \<Rightarrow> Inr (set (get_registered_affectees reg [carrier_item affector]))
      | Domain_character \<Rightarrow>
          (case current_char fit of
             Some character \<Rightarrow> Inr (set (get_registered_affectees reg [character]))
           | None \<Rightarrow> Inr {})
      | Domain_ship \<Rightarrow>
          (case current_ship fit of
             Some ship \<Rightarrow> Inr (set (get_registered_affectees reg [ship]))
           | None \<Rightarrow> Inr {})
      | Domain_other \<Rightarrow>
          Inr (set (get_registered_affectees reg (others fit (carrier_item affector))))
      | Domain_unknown n \<Rightarrow> Inl (UnexpectedDomainError (Domain_unknown n)))"

definition get_affectees_domain :: "Fit \<Rightarrow> AffectionRegister \<Rightarrow> Affector \<Rightarrow> error + item set" where
  "get_affectees_domain fit reg affector =
     (case contextize_tgt_filter_domain fit affector of
        Inl e \<Rightarrow> Inl e
      | Inr domain \<Rightarrow> Inr (get_data (affectee_domain reg) domain))"

definition get_affectees_domain_group :: "Fit \<Rightarrow> AffectionRegister \<Rightarrow> Affector \<Rightarrow> error + item set" where
  "get_affectees_domain_group fit reg affector =
     (case contextize_tgt_filter_domain fit affector of
        Inl e \<Rightarrow> Inl e
      | Inr domain \<Rightarrow>
          Inr (get_data (affectee_domain_group reg)
                 (domain, tgt_filter_extra_arg (modifier affector))))"

definition get_affectees_domain_skillrq :: "Fit \<Rightarrow> AffectionRegister \<Rightarrow> Affector \<Rightarrow> error + item set" where
  "get_affectees_domain_skillrq fit reg affector =
     (case contextize_tgt_filter_domain fit affector of
        Inl e \<Rightarrow> Inl e
      | Inr domain \<Rightarrow>
          Inr (get_data (affectee_domain_skillrq reg) (domain, skill_type_id_of fit affector)))"

definition get_affectees_owner_skillrq :: "Fit \<Rightarrow> AffectionRegister \<Rightarrow> Affector \<Rightarrow> error + item set" where
  "get_affectees_owner_skillrq fit reg affector =
     Inr (get_data (affectee_owner_skillrq reg) (skill_type_id_of fit affector))"

definition affectees_getters :: "Fit \<Rightarrow> AffectionRegister \<Rightarrow> Affector \<Rightarrow> error + item set" where
  \<comment> \<open>the body of the \<^verbatim>\<open>try\<close> of \<^verbatim>\<open>get_affectees\<close>\<close>
  "affectees_getters fit reg affector =
     (case tgt_filter (modifier affector) of
        Filter_item \<Rightarrow> get_affectees_item fit reg affector
      | Filter_domain \<Rightarrow> get_affectees_domain fit reg affector
      | Filter_domain_group \<Rightarrow> get_affectees_domain_group fit reg affector
      | Filter_domain_skillrq \<Rightarrow> get_affectees_domain_skillrq fit reg affector
      | Filter_owner_skillrq \<Rightarrow> get_affectees_owner_skillrq fit reg affector
      | Filter_unknown n \<Rightarrow> Inl (UnknownTgtFilterError (Filter_unknown n)))"

definition get_affectees :: "Fit \<Rightarrow> AffectionRegister \<Rightarrow> Affector \<Rightarrow> item set \<times> log_record list" where
  \<comment> \<open>the items returned, and the warnings logged by the call\<close>
  "get_affectees fit reg affector =
     (case affectees_getters fit reg affector of
        Inl e \<Rightarrow> ({}, handle_affector_errors fit e affector)
      | Inr items \<Rightarrow> (items, []))"

definition get_affectee_storages :: "Fit \<Rightarrow> item \<Rightarrow> affectee_storage list" where
  "get_affectee_storages fit affectee_item =
     (case modifier_domain fit affectee_item of
        None \<Rightarrow> []
      | Some domain \<Rightarrow>
          In_affectee_domain domain
          # (case group_id fit affectee_item of
               None \<Rightarrow> []
             | Some g \<Rightarrow> [In_affectee_domain_group (domain, Some g)])
          @ map (\<lambda>skill_type_id. In_affectee_domain_skillrq (domain, Some skill_type_id))
              (required_skills fit affectee_item))
     @ (if owner_modifiable fit affectee_item
        then map (\<lambda>skill_type_id. In_affectee_owner_skillrq (Some skill_type_id))
               (required_skills fit affectee_item)
        else [])"

fun add_affectee_entry :: "item \<Rightarrow> affectee_storage \<Rightarrow> AffectionRegister \<Rightarrow> AffectionRegister" where
  "add_affectee_entry x (In_affectee_domain k) reg =
     reg\<lparr>affectee_domain := add_data_entry (affectee_domain reg) k x\<rparr>"
| "add_affectee_entry x (In_affectee_domain_group k) reg =
     reg\<lparr>affectee_domain_group := add_data_entry (affectee_domain_group reg) k x\<rparr>"
| "add_affectee_entry x (In_affectee_domain_skillrq k) reg =
     reg\<lparr>affectee_domain_skillrq := add_data_entry (affectee_domain_skillrq reg) k x\<rparr>"
| "add_affectee_entry x (In_affectee_owner_skillrq k) reg =
     reg\<lparr>affectee_owner_skillrq := add_data_entry (affectee_owner_skillrq reg) k x\<rparr>"

fun rm_affectee_entry :: "item \<Rightarrow> affectee_storage \<Rightarrow> AffectionRegister \<Rightarrow> AffectionRegister" where
  "rm_affectee_entry x (In_affectee_domain k) reg =
     reg\<lparr>affectee_domain := rm_data_entry (affectee_domain reg) k x\<rparr>"
| "rm_affectee_entry x (In_affectee_domain_group k) reg =
     reg\<lparr>affectee_domain_group := rm_data_entry (affectee_domain_group reg) k x\<rparr>"
| "rm_affectee_entry x (In_affectee_domain_skillrq k) reg =
     reg\<lparr>affectee_domain_skillrq := rm_data_entry (affectee_domain_skillrq reg) k x\<rparr>"
| "rm_affectee_entry x (In_affectee_owner_skillrq k) reg =
     reg\<lparr>affectee_owner_skillrq := rm_data_entry (affectee_owner_skillrq reg) k x\<rparr>"

definition awaitable_to_activate :: "Fit \<Rightarrow> AffectionRegister \<Rightarrow> item \<Rightarrow> Affector set" where
  \<comment> \<open>the set \<^verbatim>\<open>affectors_awaitable\<close> that the first loop of
      \<^verbatim>\<open>__activate_direct_affectors\<close> collects from \<^verbatim>\<open>affector_item_awaitable.items()\<close>\<close>
  "awaitable_to_activate fit reg affectee_item =
     (\<Union>carrier \<in> dom (affector_item_awaitable reg).
        {affector \<in> get_data (affector_item_awaitable reg) carrier.
           (let domain = tgt_domain (modifier affector)
            in if domain = Domain_ship then Some affectee_item = current_ship fit
               else if domain = Domain_character then Some affectee_item = current_char fit
               else if domain = Domain_self then affectee_item = carrier
               else False)})"

definition other_to_activate :: "Fit \<Rightarrow> AffectionRegister \<Rightarrow> item \<Rightarrow> Affector set" where
  \<comment> \<open>the set \<^verbatim>\<open>affectors_other\<close> collected from \<^verbatim>\<open>affector_item_other.items()\<close>\<close>
  "other_to_activate fit reg affectee_item =
     (\<Union>carrier \<in> dom (affector_item_other reg).
        {affector \<in> get_data (affector_item_other reg) carrier.
           affectee_item \<in> set (others fit carrier)})"

definition activate_direct_affectors :: "Fit \<Rightarrow> AffectionRegister \<Rightarrow> item \<Rightarrow> AffectionRegister" where
  "activate_direct_affectors fit reg affectee_item =
     (let affectors_awaitable = awaitable_to_activate fit reg affectee_item;
          reg1 = (if affectors_awaitable \<noteq> {}
                  then reg\<lparr>affector_item_awaitable :=
                             rm_data_entries (affector_item_awaitable reg) carrier_item
                               affectors_awaitable,
                           affector_item_active :=
                             add_data_set (affector_item_active reg) affectee_item
                               affectors_awaitable\<rparr>
                  else reg);
          affectors_other = other_to_activate fit reg1 affectee_item
      in if affectors_other \<noteq> {}
         then reg1\<lparr>affector_item_active :=
                     add_data_set (affector_item_active reg1) affectee_item affectors_other\<rparr>
         else reg1)"

definition deactivate_direct_affectors :: "AffectionRegister \<Rightarrow> item \<Rightarrow> AffectionRegister" where
  "deactivate_direct_affectors reg affectee_item =
     (if affector_item_active reg affectee_item = None then reg
      else
        let affectors_awaitable =
              {affector \<in> get_data (affector_item_active reg) affectee_item.
                 tgt_domain (modifier affector) = Domain_ship
                 \<or> tgt_domain (modifier affector) = Domain_character
                 \<or> tgt_domain (modifier affector) = Domain_self}
        in reg\<lparr>affector_item_active := (affector_item_active reg)(affectee_item := None),
                affector_item_awaitable :=
                  add_data_entries (affector_item_awaitable reg) carrier_item
                    affectors_awaitable\<rparr>)"

definition register_affectee :: "Fit \<Rightarrow> AffectionRegister \<Rightarrow> item \<Rightarrow> AffectionRegister" where
  "register_affectee fit reg affectee_item =
     activate_direct_affectors fit
       (fold (add_affectee_entry affectee_item) (get_affectee_storages fit affectee_item)
          (reg\<lparr>affectee := insert affectee_item (affectee reg)\<rparr>))
       affectee_item"

definition unregister_affectee :: "Fit \<Rightarrow> AffectionRegister \<Rightarrow> item \<Rightarrow> AffectionRegister" where
  "unregister_affectee fit reg affectee_item =
     deactivate_direct_affectors
       (fold (rm_affectee_entry affectee_item) (get_affectee_storages fit affectee_item)
          (reg\<lparr>affectee := affectee reg - {affectee_item}\<rparr>))
       affectee_item"

subsection \<open>Affector processing\<close>

definition get_affectors :: "Fit \<Rightarrow> AffectionRegister \<Rightarrow> item \<Rightarrow> Affector set" where
  "get_affectors fit reg affectee_item =
     (if affectee_item \<notin> affectee reg then {}
      else
        get_data (affector_item_active reg) affectee_item
        \<union> (case modifier_domain fit affectee_item of
             None \<Rightarrow> {}
           | Some domain \<Rightarrow>
               get_data (affector_domain reg) domain
               \<union> get_data (affector_domain_group reg) (domain, group_id fit affectee_item)
               \<union> (\<Union>skill_type_id \<in> set (required_skills fit affectee_item).
                    get_data (affector_domain_skillrq reg) (domain, Some skill_type_id)))
        \<union> (if owner_modifiable fit affectee_item
           then (\<Union>skill_type_id \<in> set (required_skills fit affectee_item).
                   get_data (affector_owner_skillrq reg) (Some skill_type_id))
           else {}))"

definition get_affector_storages_item_self :: "AffectionRegister \<Rightarrow> Affector \<Rightarrow> affector_storage list" where
  "get_affector_storages_item_self reg affector =
     (if carrier_item affector \<in> affectee reg
      then [In_affector_item_active (carrier_item affector)]
      else [In_affector_item_awaitable (carrier_item affector)])"

definition get_affector_storages_item_character ::
  "Fit \<Rightarrow> AffectionRegister \<Rightarrow> Affector \<Rightarrow> affector_storage list" where
  "get_affector_storages_item_character fit reg affector =
     (case current_char fit of
        Some character \<Rightarrow>
          if character \<in> affectee reg then [In_affector_item_active character]
          else [In_affector_item_awaitable (carrier_item affector)]
      | None \<Rightarrow> [In_affector_item_awaitable (carrier_item affector)])"

definition get_affector_storages_item_ship ::
  "Fit \<Rightarrow> AffectionRegister \<Rightarrow> Affector \<Rightarrow> affector_storage list" where
  "get_affector_storages_item_ship fit reg affector =
     (case current_ship fit of
        Some ship \<Rightarrow>
          if ship \<in> affectee reg then [In_affector_item_active ship]
          else [In_affector_item_awaitable (carrier_item affector)]
      | None \<Rightarrow> [In_affector_item_awaitable (carrier_item affector)])"

definition get_affector_storages_item_other ::
  "Fit \<Rightarrow> AffectionRegister \<Rightarrow> Affector \<Rightarrow> affector_storage list" where
  "get_affector_storages_item_other fit reg affector =
     In_affector_item_other (carrier_item affector)
     # map In_affector_item_active
         (get_registered_affectees reg (others fit (carrier_item affector)))"

definition get_affector_storages_item ::
  "Fit \<Rightarrow> AffectionRegister \<Rightarrow> Affector \<Rightarrow> error + affector_storage list" where
  "get_affector_storages_item fit reg affector =
     (case tgt_domain (modifier affector) of
        Domain_self \<Rightarrow> Inr (get_affector_storages_item_self reg affector)
      | Domain_character \<Rightarrow> Inr (get_affector_storages_item_character fit reg affector)
      | Domain_ship \<Rightarrow> Inr (get_affector_storages_item_ship fit reg affector)
      | Domain_other \<Rightarrow> Inr (get_affector_storages_item_other fit reg affector)
      | Domain_unknown n \<Rightarrow> Inl (UnexpectedDomainError (Domain_unknown n)))"

definition get_affector_storages_domain :: "Fit \<Rightarrow> Affector \<Rightarrow> error + affector_storage list" where
  "get_affector_storages_domain fit affector =
     (case contextize_tgt_filter_domain fit affector of
        Inl e \<Rightarrow> Inl e
      | Inr domain \<Rightarrow> Inr [In_affector_domain domain])"

definition get_affector_storages_domain_group :: "Fit \<Rightarrow> Affector \<Rightarrow> error + affector_storage list" where
  "get_affector_storages_domain_group fit affector =
     (case contextize_tgt_filter_domain fit affector of
        Inl e \<Rightarrow> Inl e
      | Inr domain \<Rightarrow>
          Inr [In_affector_domain_group (domain, tgt_filter_extra_arg (modifier affector))])"

definition get_affector_storages_domain_skillrq :: "Fit \<Rightarrow> Affector \<Rightarrow> error + affector_storage list" where
  "get_affector_storages_domain_skillrq fit affector =
     (case contextize_tgt_filter_domain fit affector of
        Inl e \<Rightarrow> Inl e
      | Inr domain \<Rightarrow> Inr [In_affector_domain_skillrq (domain, skill_type_id_of fit affector)])"

definition get_affector_storages_owner_skillrq :: "Fit \<Rightarrow> Affector \<Rightarrow> error + affector_storage list" where
  "get_affector_storages_owner_skillrq fit affector =
     Inr [In_affector_owner_skillrq (skill_type_id_of fit affector)]"

definition get_affector_storages ::
  "Fit \<Rightarrow> AffectionRegister \<Rightarrow> Affector \<Rightarrow> error + affector_storage list" where
  "get_affector_storages fit reg affector =
     (case tgt_filter (modifier affector) of
        Filter_item \<Rightarrow> get_affector_storages_item fit reg affector
      | Filter_domain \<Rightarrow> get_affector_storages_domain fit affector
      | Filter_domain_group \<Rightarrow> get_affector_storages_domain_group fit affector
      | Filter_domain_skillrq \<Rightarrow> get_affector_storages_domain_skillrq fit affector
      | Filter_owner_skillrq \<Rightarrow> get_affector_storages_owner_skillrq fit affector
      | Filter_unknown n \<Rightarrow> Inl (UnknownTgtFilterError (Filter_unknown n)))"

fun add_affector_entry :: "Affector \<Rightarrow> affector_storage \<Rightarrow> AffectionRegister \<Rightarrow> AffectionRegister" where
  "add_affector_entry a (In_affector_item_other k) reg =
     reg\<lparr>affector_item_other := add_data_entry (affector_item_other reg) k a\<rparr>"
| "add_affector_entry a (In_affector_item_awaitable k) reg =
     reg\<lparr>affector_item_awaitable := add_data_entry (affector_item_awaitable reg) k a\<rparr>"
| "add_affector_entry a (In_affector_item_active k) reg =
     reg\<lparr>affector_item_active := add_data_entry (affector_item_active reg) k a\<rparr>"
| "add_affector_entry a (In_affector_domain k) reg =
     reg\<lparr>affector_domain := add_data_entry (affector_domain reg) k a\<rparr>"
| "add_affector_entry a (In_affector_domain_group k) reg =
     reg\<lparr>affector_domain_group := add_data_entry (affector_domain_group reg) k a\<rparr>"
| "add_affector_entry a (In_affector_domain_skillrq k) reg =
     reg\<lparr>affector_domain_skillrq := add_data_entry (affector_domain_skillrq reg) k a\<rparr>"
| "add_affector_entry a (In_affector_owner_skillrq k) reg =
     reg\<lparr>affector_owner_skillrq := add_data_entry (affector_owner_skillrq reg) k a\<rparr>"

fun rm_affector_entry :: "Affector \<Rightarrow> affector_storage \<Rightarrow> AffectionRegister \<Rightarrow> AffectionRegister" where
  "rm_affector_entry a (In_affector_item_other k) reg =
     reg\<lparr>affector_item_other := rm_data_entry (affector_item_other reg) k a\<rparr>"
| "rm_affector_entry a (In_affector_item_awaitable k) reg =
     reg\<lparr>affector_item_awaitable := rm_data_entry (affector_item_awaitable reg) k a\<rparr>"
| "rm_affector_entry a (In_affector_item_active k) reg =
     reg\<lparr>affector_item_active := rm_data_entry (affector_item_active reg) k a\<rparr>"
| "rm_affector_entry a (In_affector_domain k) reg =
     reg\<lparr>affector_domain := rm_data_entry (affector_domain reg) k a\<rparr>"
| "rm_affector_entry a (In_affector_domain_group k) reg =
     reg\<lparr>affector_domain_group := rm_data_entry (affector_domain_group reg) k a\<rparr>"
| "rm_affector_entry a (In_affector_domain_skillrq k) reg =
     reg\<lparr>affector_domain_skillrq := rm_data_entry (affector_domain_skillrq reg) k a\<rparr>"
| "rm_affector_entry a (In_affector_owner_skillrq k) reg =
     reg\<lparr>affector_owner_skillrq := rm_data_entry (affector_owner_skillrq reg) k a\<rparr>"

definition register_affector ::
  "Fit \<Rightarrow> AffectionRegister \<Rightarrow> Affector \<Rightarrow> AffectionRegister \<times> log_record list" where
  \<comment> \<open>the register after the call, and the warnings logged by the call\<close>
  "register_affector fit reg affector =
     (case get_affector_storages fit reg affector of
        Inl e \<Rightarrow> (reg, handle_affector_errors fit e affector)
      | Inr affector_storages \<Rightarrow> (fold (add_affector_entry affector) affector_storages reg, []))"

definition unregister_affector ::
  "Fit \<Rightarrow> AffectionRegister \<Rightarrow> Affector \<Rightarrow> AffectionRegister \<times> log_record list" where
  "unregister_affector fit reg affector =
     (case get_affector_storages fit reg affector of
        Inl e \<Rightarrow> (reg, handle_affector_errors fit e affector)
      | Inr affector_storages \<Rightarrow> (fold (rm_affector_entry affector) affector_storages reg, []))"

fun affector_storage_data :: "AffectionRegister \<Rightarrow> affector_storage \<Rightarrow> Affector set" where
  "affector_storage_data reg (In_affector_item_other k) = get_data (affector_item_other reg) k"
| "affector_storage_data reg (In_affector_item_awaitable k) = get_data (affector_item_awaitable reg) k"
| "affector_storage_data reg (In_affector_item_active k) = get_data (affector_item_active reg) k"
| "affector_storage_data reg (In_affector_domain k) = get_data (affector_domain reg) k"
| "affector_storage_data reg (In_affector_domain_group k) = get_data (affector_domain_group reg) k"
| "affector_storage_data reg (In_affector_domain_skillrq k) = get_data (affector_domain_skillrq reg) k"
| "affector_storage_data reg (In_affector_owner_skillrq k) = get_data (affector_owner_skillrq reg) k"

fun affectee_storage_data :: "AffectionRegister \<Rightarrow> affectee_storage \<Rightarrow> item set" where
  "affectee_storage_data reg (In_affectee_domain k) = get_data (affectee_domain reg) k"
| "affectee_storage_data reg (In_affectee_domain_group k) = get_data (affectee_domain_group reg) k"
| "affectee_storage_data reg (In_affectee_domain_skillrq k) = get_data (affectee_domain_skillrq reg) k"
| "affectee_storage_data reg (In_affectee_owner_skillrq k) = get_data (affectee_owner_skillrq reg) k"

section \<open>Modifiers that the register refuses\<close>

text \<open>
  The malformed modifiers, in the words of the spec. A target filter is unknown when
  it is none of the five of \<^verbatim>\<open>ModTgtFilter\<close>. A target domain is unexpected for the
  filter \<open>item\<close> when it is none of the four of \<^verbatim>\<open>ModDomain\<close>; for the four
  filters that the spec lists with the contextized domain (\<open>domain\<close>,
  \<open>domain_group\<close>, \<open>domain_skillrq\<close> and \<open>owner_skillrq\<close>) when it is neither
  \<open>character\<close> nor \<open>ship\<close>, nor \<open>self\<close> on a carrier that is the current ship
  or the current character.
\<close>

definition unknown_tgt_filter :: "Affector \<Rightarrow> bool" where
  "unknown_tgt_filter a =
     (tgt_filter (modifier a) \<notin>
        {Filter_item, Filter_domain, Filter_domain_group, Filter_domain_skillrq,
         Filter_owner_skillrq})"

definition unexpected_tgt_domain :: "Fit \<Rightarrow> Affector \<Rightarrow> bool" where
  "unexpected_tgt_domain fit a =
     (tgt_filter (modifier a) = Filter_item
        \<and> tgt_domain (modifier a) \<notin> {Domain_self, Domain_character, Domain_ship, Domain_other}
      \<or> tgt_filter (modifier a)
          \<in> {Filter_domain, Filter_domain_group, Filter_domain_skillrq, Filter_owner_skillrq}
        \<and> (tgt_domain (modifier a) \<notin> {Domain_self, Domain_character, Domain_ship}
           \<or> tgt_domain (modifier a) = Domain_self
             \<and> Some (carrier_item a) \<noteq> current_ship fit
             \<and> Some (carrier_item a) \<noteq> current_char fit))"

section \<open>Reachable registers\<close>

text \<open>
  The registers that the four operations build from the empty one, on a fit whose
  current ship, current character and item data stay as they are. The third argument
  is the set of affectors that have been registered and not unregistered since.
\<close>

inductive reachable :: "Fit \<Rightarrow> AffectionRegister \<Rightarrow> Affector set \<Rightarrow> bool" for fit :: Fit where
  reachable_init: "reachable fit init_register {}"
| reachable_register_affectee:
    "reachable fit reg R \<Longrightarrow> reachable fit (register_affectee fit reg x) R"
| reachable_unregister_affectee:
    "reachable fit reg R \<Longrightarrow> reachable fit (unregister_affectee fit reg x) R"
| reachable_register_affector:
    "reachable fit reg R \<Longrightarrow> reachable fit (fst (register_affector fit reg a)) (insert a R)"
| reachable_unregister_affector:
    "reachable fit reg R \<Longrightarrow> reachable fit (fst (unregister_affector fit reg a)) (R - {a})"

text \<open>
  The same while the current ship, the current character and the \<open>other\<close> items
  are bound anew between the operations: every operation runs on a fit that agrees
  with the first one on what an item is (its domain, group, required skills and
  whether its owner modifies it), and may differ in everything else.
\<close>

definition same_items :: "Fit \<Rightarrow> Fit \<Rightarrow> bool" where
  "same_items fit fit' =
     (modifier_domain fit' = modifier_domain fit \<and> group_id fit' = group_id fit
      \<and> required_skills fit' = required_skills fit
      \<and> owner_modifiable fit' = owner_modifiable fit)"

inductive reachable_rebound :: "Fit \<Rightarrow> AffectionRegister \<Rightarrow> bool" for fit :: Fit where
  rebound_init: "reachable_rebound fit init_register"
| rebound_register_affectee:
    "reachable_rebound fit reg \<Longrightarrow> same_items fit fit' \<Longrightarrow>
       reachable_rebound fit (register_affectee fit' reg x)"
| rebound_unregister_affectee:
    "reachable_rebound fit reg \<Longrightarrow> same_items fit fit' \<Longrightarrow>
       reachable_rebound fit (unregister_affectee fit' reg x)"
| rebound_register_affector:
    "reachable_rebound fit reg \<Longrightarrow> same_items fit fit' \<Longrightarrow>
       reachable_rebound fit (fst (register_affector fit' reg a))"
| rebound_unregister_affector:
    "reachable_rebound fit reg \<Longrightarrow> same_items fit fit' \<Longrightarrow>
       reachable_rebound fit (fst (unregister_affector fit' reg a))"

text \<open>
  The same with the set of registered affectors, where the current ship, the current
  character and the \<open>other\<close> items are bound anew only at a moment when this leaves
  every registered affector where it is: \<open>get_affector_storages\<close> lists the same
  storages for it before and after.
\<close>

inductive reachable_bound :: "Fit \<Rightarrow> AffectionRegister \<Rightarrow> Affector set \<Rightarrow> bool" where
  bound_init: "reachable_bound fit init_register {}"
| bound_register_affectee:
    "reachable_bound fit reg R \<Longrightarrow> reachable_bound fit (register_affectee fit reg x) R"
| bound_unregister_affectee:
    "reachable_bound fit reg R \<Longrightarrow> reachable_bound fit (unregister_affectee fit reg x) R"
| bound_register_affector:
    "reachable_bound fit reg R \<Longrightarrow>
       reachable_bound fit (fst (register_affector fit reg a)) (insert a R)"
| bound_unregister_affector:
    "reachable_bound fit reg R \<Longrightarrow>
       reachable_bound fit (fst (unregister_affector fit reg a)) (R - {a})"
| bound_rebind:
    "reachable_bound fit reg R \<Longrightarrow> same_items fit fit' \<Longrightarrow>
       \<forall>a\<in>R. get_affector_storages fit' reg a = get_affector_storages fit reg a \<Longrightarrow>
       reachable_bound fit' reg R"

definition no_empty :: "('k, 'v) KeyedStorage \<Rightarrow> bool" where
  "no_empty m = (\<forall>k. m k \<noteq> Some {})"

definition affectee_no_empty :: "AffectionRegister \<Rightarrow> bool" where
  "affectee_no_empty reg =
     (no_empty (affectee_domain reg) \<and> no_empty (affectee_domain_group reg)
      \<and> no_empty (affectee_domain_skillrq reg) \<and> no_empty (affectee_owner_skillrq reg))"

definition inv_affectees :: "Fit \<Rightarrow> AffectionRegister \<Rightarrow> bool" where
  \<comment> \<open>an item is stored only while registered, and only where it belongs\<close>
  "inv_affectees fit reg =
     (\<forall>sl x. x \<in> affectee_storage_data reg sl \<longrightarrow>
        x \<in> affectee reg \<and> sl \<in> set (get_affectee_storages fit x))"

definition inv_active :: "AffectionRegister \<Rightarrow> bool" where
  \<comment> \<open>active direct affectors are keyed on registered items\<close>
  "inv_active reg = (dom (affector_item_active reg) \<subseteq> affectee reg)"

definition inv_awaitable :: "AffectionRegister \<Rightarrow> bool" where
  \<comment> \<open>awaitable affectors are keyed on their carrier\<close>
  "inv_awaitable reg =
     (\<forall>c a. a \<in> get_data (affector_item_awaitable reg) c \<longrightarrow> carrier_item a = c)"

definition inv_other :: "AffectionRegister \<Rightarrow> bool" where
  \<comment> \<open>\<open>affector_item_other\<close> holds affectors of the domain \<open>other\<close> only\<close>
  "inv_other reg =
     (\<forall>c a. a \<in> get_data (affector_item_other reg) c \<longrightarrow>
        tgt_domain (modifier a) = Domain_other)"

definition register_inv :: "Fit \<Rightarrow> AffectionRegister \<Rightarrow> bool" where
  "register_inv fit reg =
     (inv_affectees fit reg \<and> inv_active reg \<and> inv_awaitable reg \<and> inv_other reg
      \<and> affectee_no_empty reg)"

definition inv_registered :: "Fit \<Rightarrow> AffectionRegister \<Rightarrow> Affector set \<Rightarrow> bool" where
  \<comment> \<open>a registered affector is in every storage that \<open>get_affector_storages\<close> lists for it now\<close>
  "inv_registered fit reg R =
     (\<forall>a\<in>R. \<forall>sls. get_affector_storages fit reg a = Inr sls \<longrightarrow>
        (\<forall>sl\<in>set sls. a \<in> affector_storage_data reg sl))"

definition stored :: "Fit \<Rightarrow> AffectionRegister \<Rightarrow> Affector \<Rightarrow> bool" where
  \<comment> \<open>the same of one affector\<close>
  "stored fit reg a =
     (\<forall>sls. get_affector_storages fit reg a = Inr sls \<longrightarrow>
        (\<forall>sl\<in>set sls. a \<in> affector_storage_data reg sl))"

section \<open>An example fit\<close>

text \<open>
  A small fit on which the theorems below are instantiated: item 1 is the ship, item 2
  the character, item 3 a module of group 10 that requires skill 50, item 4 the charge
  loaded into the module, item 5 a drone that requires skill 50, item 6 an implant.
\<close>

definition example_fit :: Fit where
  "example_fit =
     \<lparr>current_ship = Some 1, current_char = Some 2,
      type_id = (\<lambda>i. 100 + int i),
      modifier_domain = (\<lambda>i. if i = 3 \<or> i = 4 then Some Domain_ship
                              else if i = 6 then Some Domain_character else None),
      group_id = (\<lambda>i. if i = 3 then Some 10 else None),
      required_skills = (\<lambda>i. if i = 3 \<or> i = 5 then [50] else []),
      owner_modifiable = (\<lambda>i. i = 4 \<or> i = 5),
      others = (\<lambda>i. if i = 3 then [4] else if i = 4 then [3] else []),
      current_self = - 1\<rparr>"

definition example_modifier :: "ModTgtFilter \<Rightarrow> ModDomain \<Rightarrow> int option \<Rightarrow> DogmaModifier" where
  "example_modifier f d arg =
     \<lparr>state = 0, tgt_filter = f, tgt_domain = d, tgt_attr = 1211,
      tgt_filter_extra_arg = arg, operator = 0, src_attr = 1503\<rparr>"

definition example_affector :: "item \<Rightarrow> ModTgtFilter \<Rightarrow> ModDomain \<Rightarrow> int option \<Rightarrow> Affector" where
  "example_affector c f d arg = \<lparr>carrier_item = c, modifier = example_modifier f d arg\<rparr>"

text \<open>
  A register of the example fit: the module is registered, then an affector of the
  module on itself, then an affector of the charge on its \<open>other\<close> item, the module.
\<close>

definition example_register :: AffectionRegister where
  "example_register =
     fst (register_affector example_fit
       (fst (register_affector example_fit
          (register_affectee example_fit init_register 3)
          (example_affector 3 Filter_item Domain_self None)))
       (example_affector 4 Filter_item Domain_other None))"

text \<open>
  Another register of the example fit: the same two affectors are registered, the
  module is not.
\<close>

definition example_awaiting_register :: AffectionRegister where
  "example_awaiting_register =
     fst (register_affector example_fit
       (fst (register_affector example_fit init_register
          (example_affector 3 Filter_item Domain_self None)))
       (example_affector 4 Filter_item Domain_other None))"

text \<open>
  A register of the example fit in which the ship and a second hull, item 7, are
  registered, and then an affector of the module on the ship.
\<close>

definition rebound_register :: AffectionRegister where
  "rebound_register =
     fst (register_affector example_fit
       (register_affectee example_fit (register_affectee example_fit init_register 1) 7)
       (example_affector 3 Filter_item Domain_ship None))"

text \<open>
  A register built while the ship is bound: the affector of the module on the ship is
  registered on a fit that has no ship, then item 1 becomes the current ship and is
  registered.
\<close>

definition example_bound_register :: AffectionRegister where
  "example_bound_register =
     register_affectee example_fit
       (fst (register_affector (example_fit\<lparr>current_ship := None\<rparr>) init_register
              (example_affector 3 Filter_item Domain_ship None)))
       1"

section \<open>The effect build\<close>

text \<open>
  The effect builder (\<^verbatim>\<open>InfoBuilder.build\<close>) is not among the source files; only its
  test \<^verbatim>\<open>tests/infoBuilder/duration/local/testModLoc.py\<close> is. The categories, states
  and contexts are those the spec enumerates.
\<close>

datatype EffectCategory =
  Category_passive | Category_active | Category_target | Category_area
  | Category_online | Category_overload | Category_dungeon | Category_system

datatype State = State_offline | State_online | State_active | State_overload

datatype Context = Context_local | Context_projected

datatype EffectBuildStatus = Status_ok_full | Status_error

text \<open>
  What the builder reads off the expression trees of an effect (location, filter,
  operator, attributes) is kept abstract: the spec does not cover the parsing of the
  trees. An emitted info adds the state and the context to it.
\<close>

record 'm Info =
  info_state :: State
  info_context :: Context
  info_modification :: 'm

definition category_of_id :: "nat \<Rightarrow> EffectCategory option" where
  \<comment> \<open>Modelled from the spec: the numbering of \<^verbatim>\<open>EffectCategory\<close> (the constants of
      \<^verbatim>\<open>eos.const\<close> are missing): passive=0, active=1, target=2, area=3, online=4,
      overload=5, dungeon=6, system=7.\<close>
  "category_of_id n =
     (if n = 0 then Some Category_passive else if n = 1 then Some Category_active
      else if n = 2 then Some Category_target else if n = 3 then Some Category_area
      else if n = 4 then Some Category_online else if n = 5 then Some Category_overload
      else if n = 6 then Some Category_dungeon else if n = 7 then Some Category_system
      else None)"

definition category_table :: "(EffectCategory \<times> (State \<times> Context) option) list" where
  \<comment> \<open>Modelled from the spec: the table "Category, minimum state, context" used by the
      effect build, row by row; \<open>None\<close> is the entry "error (rejected)". The builder
      that holds this table is missing from the source files.\<close>
  "category_table =
     [(Category_passive, Some (State_offline, Context_local)),
      (Category_active, Some (State_active, Context_local)),
      (Category_target, Some (State_active, Context_projected)),
      (Category_area, None),
      (Category_online, Some (State_online, Context_local)),
      (Category_overload, Some (State_overload, Context_local)),
      (Category_dungeon, None),
      (Category_system, Some (State_offline, Context_local))]"

definition build :: "EffectCategory \<Rightarrow> 'm list \<Rightarrow> 'm Info list \<times> EffectBuildStatus" where
  \<comment> \<open>Modelled from the spec: the effect build (\<^verbatim>\<open>InfoBuilder.build\<close>, missing from the
      source files), given the category of the effect and the modifications that its
      expression trees describe. A rejected category gives the status \<open>error\<close> and no
      info; otherwise every modification is emitted with the state and the context of
      the category.\<close>
  "build category modifications =
     (case map_of category_table category of
        Some (Some (st, ctx)) \<Rightarrow>
          (map (\<lambda>m. \<lparr>info_state = st, info_context = ctx, info_modification = m\<rparr>)
             modifications,
           Status_ok_full)
      | _ \<Rightarrow> ([], Status_error))"

section \<open>The simulator boundary of the reactive armor hardener\<close>

text \<open>
  The simulator of the reactive armor hardener (RAH) and the calculator are not among
  the source files; only the test \<^verbatim>\<open>tests/integration/sim/rah/test_rah_results.py\<close>
  is. The ticks of the simulation are not modelled: its outcome, an exception or the
  averaged resonances of the RAH, is an argument.
\<close>

datatype damage_type = Em | Thermal | Kinetic | Explosive

type_synonym resonances = "damage_type \<Rightarrow> real"

datatype sim_log = Sim_warning string

definition rah_resonances :: "'e + resonances \<Rightarrow> resonances \<Rightarrow> resonances \<times> sim_log list" where
  \<comment> \<open>Modelled from the spec: the result application of the RAH simulator (missing from
      the source files). The averaged resonances are written over the four resonance
      attributes of the RAH; if any exception occurs during the simulation, the warning
      is logged and the original, unsimulated values are left unchanged. The result is
      the resonances that the RAH shows, and what is logged.\<close>
  "rah_resonances simulation unsimulated =
     (case simulation of
        Inl e \<Rightarrow>
          (unsimulated, [Sim_warning ''unexpected exception, setting unsimulated resonances''])
      | Inr average \<Rightarrow> (average, []))"

definition ship_resonance :: "real \<Rightarrow> real \<Rightarrow> real \<Rightarrow> real" where
  \<comment> \<open>Modelled from the spec: the calculator (missing from the source files) on an armor
      resonance of a ship whose only affector is the resonance of one RAH. A resonance is
      multiplicative: the contribution is applied by multiplication, with the penalty
      factor of the first contribution, \<open>0.5 ^ 0 = 1\<close>; the result is clamped between 0
      and the value of the attribute's \<^verbatim>\<open>max_attribute\<close>.\<close>
  "ship_resonance base multiplier max_value = min max_value (max 0 (base * multiplier))"

text \<open>
  The data of \<^verbatim>\<open>test_unexpected_exception\<close>: base resonances 0.5, 0.65, 0.75 and 0.9
  of the ship, unsimulated resonances 0.85 of the RAH.
\<close>

definition test_ship_resonances :: resonances where
  "test_ship_resonances t =
     (case t of Em \<Rightarrow> 0.5 | Thermal \<Rightarrow> 0.65 | Kinetic \<Rightarrow> 0.75 | Explosive \<Rightarrow> 0.9)"

section \<open>Properties of the storages\<close>

lemma get_data_simps:
  "get_data Map.empty k = {}"
  "get_data (m(k \<mapsto> s)) k' = (if k' = k then s else get_data m k')"
  "get_data (m(k := None)) k' = (if k' = k then {} else get_data m k')"
  by (simp_all add: get_data_def)

lemma get_data_add_data_entry:
  "get_data (add_data_entry m k d) k' = (if k' = k then insert d (get_data m k) else get_data m k')"
  by (simp add: add_data_entry_def get_data_def)

lemma get_data_rm_data_entry:
  "get_data (rm_data_entry m k d) k' = (if k' = k then get_data m k - {d} else get_data m k')"
  by (auto simp: rm_data_entry_def get_data_def split: option.splits)

lemma get_data_add_data_set:
  "get_data (add_data_set m k ds) k' = (if k' = k then get_data m k \<union> ds else get_data m k')"
  by (simp add: add_data_set_def get_data_def)

lemma get_data_rm_data_entries:
  "get_data (rm_data_entries m f D) k = get_data m k - {d \<in> D. f d = k}"
  by (auto simp: rm_data_entries_def get_data_def split: option.splits)

lemma get_data_add_data_entries:
  "get_data (add_data_entries m f D) k = get_data m k \<union> {d \<in> D. f d = k}"
  by (auto simp: add_data_entries_def get_data_def split: option.splits)

lemma rm_data_entries_empty: "rm_data_entries m f {} = m"
  by (simp add: rm_data_entries_def)

lemma rm_data_entries_insert:
  "rm_data_entries m f (insert d D) = rm_data_entries (rm_data_entry m (f d) d) f D"
  apply (rule ext)
  apply (auto simp: rm_data_entries_def rm_data_entry_def split: option.splits if_splits)
  done

lemma rm_data_entries_fold:
  "fold (\<lambda>d m. rm_data_entry m (f d) d) xs m = rm_data_entries m f (set xs)"
  by (induction xs arbitrary: m) (simp_all add: rm_data_entries_empty rm_data_entries_insert)

lemma add_data_entries_empty: "add_data_entries m f {} = m"
  by (simp add: add_data_entries_def)

lemma add_data_entries_insert:
  "add_data_entries m f (insert d D) = add_data_entries (add_data_entry m (f d) d) f D"
  apply (rule ext)
  apply (auto simp: add_data_entries_def add_data_entry_def get_data_def split: option.splits if_splits)
  done

lemma add_data_entries_fold:
  "fold (\<lambda>d m. add_data_entry m (f d) d) xs m = add_data_entries m f (set xs)"
  by (induction xs arbitrary: m) (simp_all add: add_data_entries_empty add_data_entries_insert)

subsection \<open>What the loops over storages change\<close>

lemma add_affectee_entry_data:
  "affectee_storage_data (add_affectee_entry x sl' reg) sl =
     (if sl = sl' then insert x (affectee_storage_data reg sl) else affectee_storage_data reg sl)"
  by (cases sl; cases sl') (simp_all add: get_data_add_data_entry)

lemma rm_affectee_entry_data:
  "affectee_storage_data (rm_affectee_entry x sl' reg) sl =
     (if sl = sl' then affectee_storage_data reg sl - {x} else affectee_storage_data reg sl)"
  by (cases sl; cases sl') (simp_all add: get_data_rm_data_entry)

lemma add_affectee_entry_frame:
  "affectee (add_affectee_entry x sl reg) = affectee reg"
  "affector_item_other (add_affectee_entry x sl reg) = affector_item_other reg"
  "affector_item_awaitable (add_affectee_entry x sl reg) = affector_item_awaitable reg"
  "affector_item_active (add_affectee_entry x sl reg) = affector_item_active reg"
  "affector_domain (add_affectee_entry x sl reg) = affector_domain reg"
  "affector_domain_group (add_affectee_entry x sl reg) = affector_domain_group reg"
  "affector_domain_skillrq (add_affectee_entry x sl reg) = affector_domain_skillrq reg"
  "affector_owner_skillrq (add_affectee_entry x sl reg) = affector_owner_skillrq reg"
  by (cases sl; simp)+

lemma rm_affectee_entry_frame:
  "affectee (rm_affectee_entry x sl reg) = affectee reg"
  "affector_item_other (rm_affectee_entry x sl reg) = affector_item_other reg"
  "affector_item_awaitable (rm_affectee_entry x sl reg) = affector_item_awaitable reg"
  "affector_item_active (rm_affectee_entry x sl reg) = affector_item_active reg"
  "affector_domain (rm_affectee_entry x sl reg) = affector_domain reg"
  "affector_domain_group (rm_affectee_entry x sl reg) = affector_domain_group reg"
  "affector_domain_skillrq (rm_affectee_entry x sl reg) = affector_domain_skillrq reg"
  "affector_owner_skillrq (rm_affectee_entry x sl reg) = affector_owner_skillrq reg"
  by (cases sl; simp)+

lemma fold_add_affectee_entry_data:
  "affectee_storage_data (fold (add_affectee_entry x) sls reg) sl =
     (if sl \<in> set sls then insert x (affectee_storage_data reg sl) else affectee_storage_data reg sl)"
  by (induction sls arbitrary: reg) (auto simp: add_affectee_entry_data)

lemma fold_rm_affectee_entry_data:
  "affectee_storage_data (fold (rm_affectee_entry x) sls reg) sl =
     (if sl \<in> set sls then affectee_storage_data reg sl - {x} else affectee_storage_data reg sl)"
  by (induction sls arbitrary: reg) (auto simp: rm_affectee_entry_data)

lemma fold_add_affectee_entry_frame:
  "affectee (fold (add_affectee_entry x) sls reg) = affectee reg"
  "affector_item_other (fold (add_affectee_entry x) sls reg) = affector_item_other reg"
  "affector_item_awaitable (fold (add_affectee_entry x) sls reg) = affector_item_awaitable reg"
  "affector_item_active (fold (add_affectee_entry x) sls reg) = affector_item_active reg"
  "affector_domain (fold (add_affectee_entry x) sls reg) = affector_domain reg"
  "affector_domain_group (fold (add_affectee_entry x) sls reg) = affector_domain_group reg"
  "affector_domain_skillrq (fold (add_affectee_entry x) sls reg) = affector_domain_skillrq reg"
  "affector_owner_skillrq (fold (add_affectee_entry x) sls reg) = affector_owner_skillrq reg"
  by (induction sls arbitrary: reg; simp add: add_affectee_entry_frame)+

lemma fold_rm_affectee_entry_frame:
  "affectee (fold (rm_affectee_entry x) sls reg) = affectee reg"
  "affector_item_other (fold (rm_affectee_entry x) sls reg) = affector_item_other reg"
  "affector_item_awaitable (fold (rm_affectee_entry x) sls reg) = affector_item_awaitable reg"
  "affector_item_active (fold (rm_affectee_entry x) sls reg) = affector_item_active reg"
  "affector_domain (fold (rm_affectee_entry x) sls reg) = affector_domain reg"
  "affector_domain_group (fold (rm_affectee_entry x) sls reg) = affector_domain_group reg"
  "affector_domain_skillrq (fold (rm_affectee_entry x) sls reg) = affector_domain_skillrq reg"
  "affector_owner_skillrq (fold (rm_affectee_entry x) sls reg) = affector_owner_skillrq reg"
  by (induction sls arbitrary: reg; simp add: rm_affectee_entry_frame)+

lemma add_affector_entry_data:
  "affector_storage_data (add_affector_entry a sl' reg) sl =
     (if sl = sl' then insert a (affector_storage_data reg sl) else affector_storage_data reg sl)"
  by (cases sl; cases sl') (simp_all add: get_data_add_data_entry)

lemma rm_affector_entry_data:
  "affector_storage_data (rm_affector_entry a sl' reg) sl =
     (if sl = sl' then affector_storage_data reg sl - {a} else affector_storage_data reg sl)"
  by (cases sl; cases sl') (simp_all add: get_data_rm_data_entry)

lemma add_affector_entry_frame:
  "affectee (add_affector_entry a sl reg) = affectee reg"
  "affectee_domain (add_affector_entry a sl reg) = affectee_domain reg"
  "affectee_domain_group (add_affector_entry a sl reg) = affectee_domain_group reg"
  "affectee_domain_skillrq (add_affector_entry a sl reg) = affectee_domain_skillrq reg"
  "affectee_owner_skillrq (add_affector_entry a sl reg) = affectee_owner_skillrq reg"
  by (cases sl; simp)+

lemma rm_affector_entry_frame:
  "affectee (rm_affector_entry a sl reg) = affectee reg"
  "affectee_domain (rm_affector_entry a sl reg) = affectee_domain reg"
  "affectee_domain_group (rm_affector_entry a sl reg) = affectee_domain_group reg"
  "affectee_domain_skillrq (rm_affector_entry a sl reg) = affectee_domain_skillrq reg"
  "affectee_owner_skillrq (rm_affector_entry a sl reg) = affectee_owner_skillrq reg"
  by (cases sl; simp)+

lemma fold_add_affector_entry_data:
  "affector_storage_data (fold (add_affector_entry a) sls reg) sl =
     (if sl \<in> set sls then insert a (affector_storage_data reg sl) else affector_storage_data reg sl)"
  by (induction sls arbitrary: reg) (auto simp: add_affector_entry_data)

lemma fold_rm_affector_entry_data:
  "affector_storage_data (fold (rm_affector_entry a) sls reg) sl =
     (if sl \<in> set sls then affector_storage_data reg sl - {a} else affector_storage_data reg sl)"
  by (induction sls arbitrary: reg) (auto simp: rm_affector_entry_data)

lemma fold_add_affector_entry_frame:
  "affectee (fold (add_affector_entry a) sls reg) = affectee reg"
  "affectee_domain (fold (add_affector_entry a) sls reg) = affectee_domain reg"
  "affectee_domain_group (fold (add_affector_entry a) sls reg) = affectee_domain_group reg"
  "affectee_domain_skillrq (fold (add_affector_entry a) sls reg) = affectee_domain_skillrq reg"
  "affectee_owner_skillrq (fold (add_affector_entry a) sls reg) = affectee_owner_skillrq reg"
  by (induction sls arbitrary: reg; simp add: add_affector_entry_frame)+

lemma fold_rm_affector_entry_frame:
  "affectee (fold (rm_affector_entry a) sls reg) = affectee reg"
  "affectee_domain (fold (rm_affector_entry a) sls reg) = affectee_domain reg"
  "affectee_domain_group (fold (rm_affector_entry a) sls reg) = affectee_domain_group reg"
  "affectee_domain_skillrq (fold (rm_affector_entry a) sls reg) = affectee_domain_skillrq reg"
  "affectee_owner_skillrq (fold (rm_affector_entry a) sls reg) = affectee_owner_skillrq reg"
  by (induction sls arbitrary: reg; simp add: rm_affector_entry_frame)+

section \<open>The example fit, evaluated\<close>

lemma example_affector_simps:
  "carrier_item (example_affector c f d arg) = c"
  "tgt_filter (modifier (example_affector c f d arg)) = f"
  "tgt_domain (modifier (example_affector c f d arg)) = d"
  "tgt_filter_extra_arg (modifier (example_affector c f d arg)) = arg"
  by (simp_all add: example_affector_def example_modifier_def)

lemma example_fit_simps:
  "current_ship example_fit = Some 1"
  "current_char example_fit = Some 2"
  "type_id example_fit i = 100 + int i"
  "modifier_domain example_fit i =
     (if i = 3 \<or> i = 4 then Some Domain_ship else if i = 6 then Some Domain_character else None)"
  "group_id example_fit i = (if i = 3 then Some 10 else None)"
  "required_skills example_fit i = (if i = 3 \<or> i = 5 then [50] else [])"
  "owner_modifiable example_fit i = (i = 4 \<or> i = 5)"
  "others example_fit i = (if i = 3 then [4] else if i = 4 then [3] else [])"
  "current_self example_fit = - 1"
  by (simp_all add: example_fit_def)

section \<open>Queries on items that are not registered\<close>

text \<open>
  C9. For every item that is not in the register's affectee set, \<open>get_affectors\<close>
  returns the empty set, whatever the affector indices hold.
\<close>

theorem get_affectors_not_registered:
  "x \<notin> affectee reg \<Longrightarrow> get_affectors fit reg x = {}"
  by (simp add: get_affectors_def)

text \<open>
  At the example fit: an affector on all items of the ship domain is registered, the
  module (item 3) is not, and the query for the module is empty.
\<close>

theorem get_affectors_not_registered_witness:
  "get_data (affector_domain
       (fst (register_affector example_fit init_register
              (example_affector 1 Filter_domain Domain_ship None)))) Domain_ship
     = {example_affector 1 Filter_domain Domain_ship None}
   \<and> 3 \<notin> affectee (fst (register_affector example_fit init_register
              (example_affector 1 Filter_domain Domain_ship None)))
   \<and> get_affectors example_fit
        (fst (register_affector example_fit init_register
              (example_affector 1 Filter_domain Domain_ship None))) 3 = {}"
proof -
  let ?reg = "fst (register_affector example_fit init_register
              (example_affector 1 Filter_domain Domain_ship None))"
  have stored: "get_data (affector_domain ?reg) Domain_ship
     = {example_affector 1 Filter_domain Domain_ship None}"
    by (simp add: register_affector_def get_affector_storages_def
        get_affector_storages_domain_def contextize_tgt_filter_domain_def
        example_affector_simps init_register_def get_data_add_data_entry get_data_simps)
  have absent: "3 \<notin> affectee ?reg"
    by (simp add: register_affector_def get_affector_storages_def
        get_affector_storages_domain_def contextize_tgt_filter_domain_def
        example_affector_simps init_register_def)
  from stored absent get_affectors_not_registered [OF absent, of example_fit]
  show ?thesis by simp
qed

section \<open>Malformed modifiers\<close>

lemma contextize_tgt_filter_domain_cases:
  "contextize_tgt_filter_domain fit a =
     (case tgt_domain (modifier a) of
        Domain_self \<Rightarrow>
          if Some (carrier_item a) = current_ship fit then Inr Domain_ship
          else if Some (carrier_item a) = current_char fit then Inr Domain_character
          else Inl (UnexpectedDomainError Domain_self)
      | Domain_character \<Rightarrow> Inr Domain_character
      | Domain_ship \<Rightarrow> Inr Domain_ship
      | Domain_other \<Rightarrow> Inl (UnexpectedDomainError Domain_other)
      | Domain_unknown n \<Rightarrow> Inl (UnexpectedDomainError (Domain_unknown n)))"
  by (simp add: contextize_tgt_filter_domain_def Let_def split: ModDomain.splits)

lemma register_affector_Inl:
  "get_affector_storages fit reg a = Inl e \<Longrightarrow>
     register_affector fit reg a = (reg, handle_affector_errors fit e a)"
  by (simp add: register_affector_def)

lemma register_affector_Inr:
  "get_affector_storages fit reg a = Inr sls \<Longrightarrow>
     register_affector fit reg a = (fold (add_affector_entry a) sls reg, [])"
  by (simp add: register_affector_def)

lemma get_affectees_Inl:
  "affectees_getters fit reg a = Inl e \<Longrightarrow>
     get_affectees fit reg a = ({}, handle_affector_errors fit e a)"
  by (simp add: get_affectees_def)

lemma storages_error_broadcast:
  assumes "tgt_filter (modifier a) \<in> {Filter_domain, Filter_domain_group, Filter_domain_skillrq}"
    and "contextize_tgt_filter_domain fit a = Inl e"
  shows "get_affector_storages fit reg a = Inl e" and "affectees_getters fit reg a = Inl e"
  using assms
  by (auto simp: get_affector_storages_def get_affector_storages_domain_def
      get_affector_storages_domain_group_def get_affector_storages_domain_skillrq_def
      affectees_getters_def get_affectees_domain_def get_affectees_domain_group_def
      get_affectees_domain_skillrq_def)

lemma storages_ok_broadcast:
  assumes "tgt_filter (modifier a) \<in> {Filter_domain, Filter_domain_group, Filter_domain_skillrq}"
    and "contextize_tgt_filter_domain fit a = Inr d"
  shows "\<exists>sl. get_affector_storages fit reg a = Inr [sl]"
  using assms
  by (auto simp: get_affector_storages_def get_affector_storages_domain_def
      get_affector_storages_domain_group_def get_affector_storages_domain_skillrq_def)

lemma fold_add_affector_entry_mem:
  "sl \<in> set sls \<Longrightarrow> a \<in> affector_storage_data (fold (add_affector_entry a) sls reg) sl"
  by (simp add: fold_add_affector_entry_data)

lemma storages_item_other:
  assumes "tgt_filter (modifier a) = Filter_item" and "tgt_domain (modifier a) = Domain_other"
  shows "get_affector_storages fit reg a
         = Inr (In_affector_item_other (carrier_item a)
                # map In_affector_item_active
                    (get_registered_affectees reg (others fit (carrier_item a))))"
  using assms
  by (simp add: get_affector_storages_def get_affector_storages_item_def
      get_affector_storages_item_other_def)

text \<open>
  C10. An affector whose filter is \<open>domain\<close>, \<open>domain_group\<close> or \<open>domain_skillrq\<close>
  and whose target domain is \<open>other\<close> is malformed: \<open>register_affector\<close> logs
  the warning about the unsupported target domain and leaves the register as it was,
  and \<open>get_affectees\<close> returns no item. With the filter \<open>item\<close> the same domain
  is accepted: nothing is logged and the affector is stored in
  \<open>affector_item_other\<close> under its carrier.
\<close>

theorem broadcast_domain_other_rejected:
  "(tgt_filter (modifier a) \<in> {Filter_domain, Filter_domain_group, Filter_domain_skillrq}
      \<and> tgt_domain (modifier a) = Domain_other \<longrightarrow>
      register_affector fit reg a
        = (reg, [Warning_unsupported_target_domain (type_id fit (carrier_item a)) Domain_other])
      \<and> get_affectees fit reg a
        = ({}, [Warning_unsupported_target_domain (type_id fit (carrier_item a)) Domain_other]))
   \<and> (tgt_filter (modifier a) = Filter_item \<and> tgt_domain (modifier a) = Domain_other \<longrightarrow>
      snd (register_affector fit reg a) = []
      \<and> a \<in> get_data (affector_item_other (fst (register_affector fit reg a))) (carrier_item a))"
proof (intro conjI impI)
  assume h: "tgt_filter (modifier a) \<in> {Filter_domain, Filter_domain_group, Filter_domain_skillrq}
      \<and> tgt_domain (modifier a) = Domain_other"
  then have c: "contextize_tgt_filter_domain fit a = Inl (UnexpectedDomainError Domain_other)"
    by (simp add: contextize_tgt_filter_domain_cases)
  from h c show "register_affector fit reg a
        = (reg, [Warning_unsupported_target_domain (type_id fit (carrier_item a)) Domain_other])"
    by (simp add: register_affector_Inl [OF storages_error_broadcast(1)]
        handle_affector_errors_def)
  from h c show "get_affectees fit reg a
        = ({}, [Warning_unsupported_target_domain (type_id fit (carrier_item a)) Domain_other])"
    by (simp add: get_affectees_Inl [OF storages_error_broadcast(2)]
        handle_affector_errors_def)
next
  assume h: "tgt_filter (modifier a) = Filter_item \<and> tgt_domain (modifier a) = Domain_other"
  note st = storages_item_other [of a fit reg]
  from h show "snd (register_affector fit reg a) = []"
    by (simp add: register_affector_Inr [OF st])
  from h have "fst (register_affector fit reg a)
        = fold (add_affector_entry a)
            (In_affector_item_other (carrier_item a)
             # map In_affector_item_active
                 (get_registered_affectees reg (others fit (carrier_item a)))) reg"
    by (simp add: register_affector_Inr [OF st])
  moreover have "a \<in> affector_storage_data
      (fold (add_affector_entry a)
            (In_affector_item_other (carrier_item a)
             # map In_affector_item_active
                 (get_registered_affectees reg (others fit (carrier_item a)))) reg)
      (In_affector_item_other (carrier_item a))"
    by (rule fold_add_affector_entry_mem) simp
  ultimately have "a \<in> affector_storage_data (fst (register_affector fit reg a))
      (In_affector_item_other (carrier_item a))"
    by simp
  then show "a \<in> get_data (affector_item_other (fst (register_affector fit reg a))) (carrier_item a)"
    by simp
qed

theorem broadcast_domain_other_rejected_witness:
  "register_affector example_fit init_register
       (example_affector 3 Filter_domain_group Domain_other (Some 10))
     = (init_register, [Warning_unsupported_target_domain 103 Domain_other])
   \<and> get_affectees example_fit init_register
       (example_affector 3 Filter_domain_group Domain_other (Some 10))
     = ({}, [Warning_unsupported_target_domain 103 Domain_other])
   \<and> snd (register_affector example_fit init_register
            (example_affector 3 Filter_item Domain_other None)) = []
   \<and> example_affector 3 Filter_item Domain_other None
       \<in> get_data (affector_item_other (fst (register_affector example_fit init_register
            (example_affector 3 Filter_item Domain_other None)))) 3"
  using broadcast_domain_other_rejected
          [of "example_affector 3 Filter_domain_group Domain_other (Some 10)"
              example_fit init_register]
        broadcast_domain_other_rejected
          [of "example_affector 3 Filter_item Domain_other None" example_fit init_register]
  by (simp add: example_affector_simps example_fit_simps)

lemma malformed_storages_error:
  assumes "unknown_tgt_filter a
     \<or> (unexpected_tgt_domain fit a \<and> tgt_filter (modifier a) \<noteq> Filter_owner_skillrq)"
  shows "\<exists>e. get_affector_storages fit reg a = Inl e \<and> affectees_getters fit reg a = Inl e"
proof (cases "tgt_filter (modifier a)")
  case Filter_item
  with assms obtain n where "tgt_domain (modifier a) = Domain_unknown n"
    by (cases "tgt_domain (modifier a)") (auto simp: unknown_tgt_filter_def unexpected_tgt_domain_def)
  with Filter_item show ?thesis
    by (simp add: get_affector_storages_def get_affector_storages_item_def
        affectees_getters_def get_affectees_item_def)
next
  case Filter_owner_skillrq
  with assms show ?thesis
    by (simp add: unknown_tgt_filter_def unexpected_tgt_domain_def)
next
  case (Filter_unknown n)
  then show ?thesis
    by (simp add: get_affector_storages_def affectees_getters_def)
next
  case Filter_domain
  with assms have "\<exists>e. contextize_tgt_filter_domain fit a = Inl e"
    by (cases "tgt_domain (modifier a)")
      (auto simp: unknown_tgt_filter_def unexpected_tgt_domain_def
        contextize_tgt_filter_domain_cases)
  with Filter_domain show ?thesis
    using storages_error_broadcast [of a fit] by auto
next
  case Filter_domain_group
  with assms have "\<exists>e. contextize_tgt_filter_domain fit a = Inl e"
    by (cases "tgt_domain (modifier a)")
      (auto simp: unknown_tgt_filter_def unexpected_tgt_domain_def
        contextize_tgt_filter_domain_cases)
  with Filter_domain_group show ?thesis
    using storages_error_broadcast [of a fit] by auto
next
  case Filter_domain_skillrq
  with assms have "\<exists>e. contextize_tgt_filter_domain fit a = Inl e"
    by (cases "tgt_domain (modifier a)")
      (auto simp: unknown_tgt_filter_def unexpected_tgt_domain_def
        contextize_tgt_filter_domain_cases)
  with Filter_domain_skillrq show ?thesis
    using storages_error_broadcast [of a fit] by auto
qed

lemma wellformed_storages_ok:
  assumes "\<not> (unknown_tgt_filter a
     \<or> (unexpected_tgt_domain fit a \<and> tgt_filter (modifier a) \<noteq> Filter_owner_skillrq))"
  shows "\<exists>sls. get_affector_storages fit reg a = Inr sls"
proof (cases "tgt_filter (modifier a)")
  case Filter_item
  with assms show ?thesis
    by (cases "tgt_domain (modifier a)")
      (auto simp: unexpected_tgt_domain_def get_affector_storages_def
        get_affector_storages_item_def)
next
  case Filter_owner_skillrq
  then show ?thesis
    by (simp add: get_affector_storages_def get_affector_storages_owner_skillrq_def)
next
  case (Filter_unknown n)
  with assms show ?thesis by (simp add: unknown_tgt_filter_def)
next
  case Filter_domain
  with assms have "\<exists>d. contextize_tgt_filter_domain fit a = Inr d"
    by (cases "tgt_domain (modifier a)")
      (auto simp: unexpected_tgt_domain_def contextize_tgt_filter_domain_cases)
  with Filter_domain show ?thesis
    using storages_ok_broadcast [of a fit] by blast
next
  case Filter_domain_group
  with assms have "\<exists>d. contextize_tgt_filter_domain fit a = Inr d"
    by (cases "tgt_domain (modifier a)")
      (auto simp: unexpected_tgt_domain_def contextize_tgt_filter_domain_cases)
  with Filter_domain_group show ?thesis
    using storages_ok_broadcast [of a fit] by blast
next
  case Filter_domain_skillrq
  with assms have "\<exists>d. contextize_tgt_filter_domain fit a = Inr d"
    by (cases "tgt_domain (modifier a)")
      (auto simp: unexpected_tgt_domain_def contextize_tgt_filter_domain_cases)
  with Filter_domain_skillrq show ?thesis
    using storages_ok_broadcast [of a fit] by blast
qed

lemma handle_affector_errors_one:
  "\<exists>w. handle_affector_errors fit e a = [w] \<and> log_type_id w = type_id fit (carrier_item a)"
  by (cases e) (simp_all add: handle_affector_errors_def)

text \<open>
  C2, as the claim states it, fails for the filter \<open>owner_skillrq\<close>: an affector
  of the drone of the example fit with this filter and the target domain 1972, which
  is no domain at all, is stored in \<open>affector_owner_skillrq\<close>, nothing is logged,
  and \<open>get_affectors\<close> of the registered drone returns it.
\<close>

theorem owner_skillrq_unknown_domain_stored:
  "unexpected_tgt_domain example_fit
     (example_affector 5 Filter_owner_skillrq (Domain_unknown 1972) (Some 50))
   \<and> snd (register_affector example_fit (register_affectee example_fit init_register 5)
            (example_affector 5 Filter_owner_skillrq (Domain_unknown 1972) (Some 50))) = []
   \<and> get_data (affector_owner_skillrq
         (fst (register_affector example_fit (register_affectee example_fit init_register 5)
                (example_affector 5 Filter_owner_skillrq (Domain_unknown 1972) (Some 50)))))
         (Some 50)
     = {example_affector 5 Filter_owner_skillrq (Domain_unknown 1972) (Some 50)}
   \<and> get_affectors example_fit
       (fst (register_affector example_fit (register_affectee example_fit init_register 5)
              (example_affector 5 Filter_owner_skillrq (Domain_unknown 1972) (Some 50)))) 5
     = {example_affector 5 Filter_owner_skillrq (Domain_unknown 1972) (Some 50)}"
proof -
  have drone: "register_affectee example_fit init_register 5
      = init_register\<lparr>affectee := {5}, affectee_owner_skillrq := [Some 50 \<mapsto> {5}]\<rparr>"
    by (simp add: register_affectee_def get_affectee_storages_def example_fit_simps
        init_register_def add_data_entry_def get_data_def activate_direct_affectors_def
        awaitable_to_activate_def other_to_activate_def)
  show ?thesis
    unfolding drone
    by (simp add: unexpected_tgt_domain_def register_affector_def get_affector_storages_def
        get_affector_storages_owner_skillrq_def skill_type_id_of_def get_affectors_def
        example_affector_simps example_fit_simps init_register_def
        add_data_entry_def get_data_def)
qed

text \<open>
  C2, amended. When the target filter of an affector is unknown, or its target domain
  is unexpected for its filter and the filter is not \<open>owner_skillrq\<close>,
  \<open>register_affector\<close> logs exactly one warning, which names the type of the
  carrier item, and returns the register as it was, so that every later query answers
  as if the affector did not exist; \<open>get_affectees\<close> of the affector returns no item
  (and logs the same warning). Registration is all or nothing: for any other affector
  nothing is logged and the affector is in every storage that
  \<open>get_affector_storages\<close> lists for it. With the filter \<open>owner_skillrq\<close> the
  target domain is not read: whatever it is, nothing is logged and the affector is
  stored in \<open>affector_owner_skillrq\<close> under its skill.
\<close>

theorem register_affector_all_or_nothing:
  "(unknown_tgt_filter a
    \<or> (unexpected_tgt_domain fit a \<and> tgt_filter (modifier a) \<noteq> Filter_owner_skillrq) \<longrightarrow>
      (\<exists>w. register_affector fit reg a = (reg, [w])
            \<and> log_type_id w = type_id fit (carrier_item a)
            \<and> get_affectees fit reg a = ({}, [w])))
   \<and> (\<not> (unknown_tgt_filter a
          \<or> (unexpected_tgt_domain fit a
             \<and> tgt_filter (modifier a) \<noteq> Filter_owner_skillrq)) \<longrightarrow>
      snd (register_affector fit reg a) = []
      \<and> (\<exists>sls. get_affector_storages fit reg a = Inr sls
             \<and> (\<forall>sl \<in> set sls.
                   a \<in> affector_storage_data (fst (register_affector fit reg a)) sl)))
   \<and> (tgt_filter (modifier a) = Filter_owner_skillrq \<longrightarrow>
      snd (register_affector fit reg a) = []
      \<and> a \<in> get_data (affector_owner_skillrq (fst (register_affector fit reg a)))
              (skill_type_id_of fit a))"
proof (intro conjI impI)
  assume "unknown_tgt_filter a
    \<or> (unexpected_tgt_domain fit a \<and> tgt_filter (modifier a) \<noteq> Filter_owner_skillrq)"
  then obtain e where e: "get_affector_storages fit reg a = Inl e"
      "affectees_getters fit reg a = Inl e"
    using malformed_storages_error by blast
  obtain w where w: "handle_affector_errors fit e a = [w]"
      "log_type_id w = type_id fit (carrier_item a)"
    using handle_affector_errors_one by blast
  from e w show "\<exists>w. register_affector fit reg a = (reg, [w])
            \<and> log_type_id w = type_id fit (carrier_item a)
            \<and> get_affectees fit reg a = ({}, [w])"
    by (simp add: register_affector_Inl get_affectees_Inl)
next
  assume wf: "\<not> (unknown_tgt_filter a
          \<or> (unexpected_tgt_domain fit a
             \<and> tgt_filter (modifier a) \<noteq> Filter_owner_skillrq))"
  then obtain sls where sls: "get_affector_storages fit reg a = Inr sls"
    using wellformed_storages_ok by blast
  then show "snd (register_affector fit reg a) = []"
    by (simp add: register_affector_Inr)
  from sls show "\<exists>sls. get_affector_storages fit reg a = Inr sls
             \<and> (\<forall>sl \<in> set sls.
                   a \<in> affector_storage_data (fst (register_affector fit reg a)) sl)"
    by (simp add: register_affector_Inr fold_add_affector_entry_mem)
next
  assume "tgt_filter (modifier a) = Filter_owner_skillrq"
  then have st: "get_affector_storages fit reg a
      = Inr [In_affector_owner_skillrq (skill_type_id_of fit a)]"
    by (simp add: get_affector_storages_def get_affector_storages_owner_skillrq_def)
  then show "snd (register_affector fit reg a) = []"
    by (simp add: register_affector_Inr)
  from st show "a \<in> get_data (affector_owner_skillrq (fst (register_affector fit reg a)))
                (skill_type_id_of fit a)"
    by (simp add: register_affector_Inr get_data_add_data_entry)
qed

text \<open>
  At the example fit: the modifier of \<^verbatim>\<open>test_dom_unknown.py\<close> (filter \<open>item\<close>,
  domain 1972) on the module is refused, and a modifier on the module itself is
  stored.
\<close>

theorem register_affector_all_or_nothing_witness:
  "unexpected_tgt_domain example_fit (example_affector 3 Filter_item (Domain_unknown 1972) None)
   \<and> (\<exists>w. register_affector example_fit init_register
             (example_affector 3 Filter_item (Domain_unknown 1972) None)
           = (init_register, [w])
         \<and> log_type_id w = 103
         \<and> get_affectees example_fit init_register
             (example_affector 3 Filter_item (Domain_unknown 1972) None) = ({}, [w]))
   \<and> \<not> (unknown_tgt_filter (example_affector 3 Filter_item Domain_self None)
        \<or> unexpected_tgt_domain example_fit (example_affector 3 Filter_item Domain_self None))
   \<and> snd (register_affector example_fit init_register
            (example_affector 3 Filter_item Domain_self None)) = []
   \<and> (\<exists>sls. get_affector_storages example_fit init_register
               (example_affector 3 Filter_item Domain_self None) = Inr sls
           \<and> (\<forall>sl \<in> set sls.
                 example_affector 3 Filter_item Domain_self None
                 \<in> affector_storage_data
                     (fst (register_affector example_fit init_register
                            (example_affector 3 Filter_item Domain_self None))) sl))"
proof -
  have bad: "unexpected_tgt_domain example_fit
               (example_affector 3 Filter_item (Domain_unknown 1972) None)"
    by (simp add: unexpected_tgt_domain_def example_affector_simps)
  have good: "\<not> (unknown_tgt_filter (example_affector 3 Filter_item Domain_self None)
        \<or> unexpected_tgt_domain example_fit (example_affector 3 Filter_item Domain_self None))"
    by (simp add: unknown_tgt_filter_def unexpected_tgt_domain_def example_affector_simps)
  from bad good
    register_affector_all_or_nothing
      [of "example_affector 3 Filter_item (Domain_unknown 1972) None" example_fit init_register]
    register_affector_all_or_nothing
      [of "example_affector 3 Filter_item Domain_self None" example_fit init_register]
  show ?thesis
    by (simp add: example_affector_simps example_fit_simps)
qed

section \<open>Contextizing the domain \<open>self\<close>\<close>

text \<open>
  C5, as the claim states it, fails for the filter \<open>owner_skillrq\<close>: on a carrier
  that is neither the current ship nor the current character (the module of the
  example fit) an affector with this filter and the domain \<open>self\<close> is stored in
  \<open>affector_owner_skillrq\<close>, and nothing is logged.
\<close>

theorem owner_skillrq_self_not_contextized:
  "Some (carrier_item (example_affector 3 Filter_owner_skillrq Domain_self (Some 50)))
     \<noteq> current_ship example_fit
   \<and> Some (carrier_item (example_affector 3 Filter_owner_skillrq Domain_self (Some 50)))
     \<noteq> current_char example_fit
   \<and> snd (register_affector example_fit init_register
            (example_affector 3 Filter_owner_skillrq Domain_self (Some 50))) = []
   \<and> get_data (affector_owner_skillrq
         (fst (register_affector example_fit init_register
                (example_affector 3 Filter_owner_skillrq Domain_self (Some 50))))) (Some 50)
     = {example_affector 3 Filter_owner_skillrq Domain_self (Some 50)}
   \<and> get_affectees example_fit init_register
        (example_affector 3 Filter_owner_skillrq Domain_self (Some 50)) = ({}, [])"
  by (simp add: register_affector_def get_affector_storages_def
      get_affector_storages_owner_skillrq_def skill_type_id_of_def get_affectees_def
      affectees_getters_def get_affectees_owner_skillrq_def
      example_affector_simps example_fit_simps init_register_def
      get_data_add_data_entry get_data_simps)

text \<open>
  C5, amended. For an affector whose target domain is \<open>self\<close> and whose filter is
  \<open>domain\<close>, \<open>domain_group\<close> or \<open>domain_skillrq\<close>, the domain is resolved to
  \<open>ship\<close> when the carrier is the current ship, to \<open>character\<close> when the carrier
  is not the current ship and is the current character, and in every other case
  \<open>register_affector\<close> logs the warning about the unsupported target domain
  \<open>self\<close> and leaves the register as it was. With the filter \<open>owner_skillrq\<close>
  the domain is not read: nothing is logged and the affector is stored in
  \<open>affector_owner_skillrq\<close> under its skill.
\<close>

theorem contextize_self:
  assumes "tgt_domain (modifier a) = Domain_self"
  shows
    "(tgt_filter (modifier a) \<in> {Filter_domain, Filter_domain_group, Filter_domain_skillrq} \<longrightarrow>
        (Some (carrier_item a) = current_ship fit \<longrightarrow>
           contextize_tgt_filter_domain fit a = Inr Domain_ship
           \<and> snd (register_affector fit reg a) = [])
        \<and> (Some (carrier_item a) \<noteq> current_ship fit \<and> Some (carrier_item a) = current_char fit \<longrightarrow>
           contextize_tgt_filter_domain fit a = Inr Domain_character
           \<and> snd (register_affector fit reg a) = [])
        \<and> (Some (carrier_item a) \<noteq> current_ship fit \<and> Some (carrier_item a) \<noteq> current_char fit \<longrightarrow>
           contextize_tgt_filter_domain fit a = Inl (UnexpectedDomainError Domain_self)
           \<and> register_affector fit reg a
             = (reg, [Warning_unsupported_target_domain (type_id fit (carrier_item a)) Domain_self])))
     \<and> (tgt_filter (modifier a) = Filter_owner_skillrq \<longrightarrow>
        snd (register_affector fit reg a) = []
        \<and> a \<in> get_data (affector_owner_skillrq (fst (register_affector fit reg a)))
                (skill_type_id_of fit a))"
proof (intro conjI impI)
  assume f: "tgt_filter (modifier a) \<in> {Filter_domain, Filter_domain_group, Filter_domain_skillrq}"
    and c: "Some (carrier_item a) = current_ship fit"
  from assms c show d: "contextize_tgt_filter_domain fit a = Inr Domain_ship"
    by (simp add: contextize_tgt_filter_domain_cases)
  from storages_ok_broadcast [OF f d, where reg = reg] show "snd (register_affector fit reg a) = []"
    by (auto simp: register_affector_Inr)
next
  assume f: "tgt_filter (modifier a) \<in> {Filter_domain, Filter_domain_group, Filter_domain_skillrq}"
    and c: "Some (carrier_item a) \<noteq> current_ship fit \<and> Some (carrier_item a) = current_char fit"
  from assms c show d: "contextize_tgt_filter_domain fit a = Inr Domain_character"
    by (auto simp: contextize_tgt_filter_domain_cases)
  from storages_ok_broadcast [OF f d, where reg = reg] show "snd (register_affector fit reg a) = []"
    by (auto simp: register_affector_Inr)
next
  assume f: "tgt_filter (modifier a) \<in> {Filter_domain, Filter_domain_group, Filter_domain_skillrq}"
    and c: "Some (carrier_item a) \<noteq> current_ship fit \<and> Some (carrier_item a) \<noteq> current_char fit"
  from assms c show d: "contextize_tgt_filter_domain fit a = Inl (UnexpectedDomainError Domain_self)"
    by (auto simp: contextize_tgt_filter_domain_cases)
  from storages_error_broadcast(1) [OF f d, where reg = reg]
  show "register_affector fit reg a
      = (reg, [Warning_unsupported_target_domain (type_id fit (carrier_item a)) Domain_self])"
    by (simp add: register_affector_Inl handle_affector_errors_def)
next
  assume f: "tgt_filter (modifier a) = Filter_owner_skillrq"
  then have st: "get_affector_storages fit reg a
      = Inr [In_affector_owner_skillrq (skill_type_id_of fit a)]"
    by (simp add: get_affector_storages_def get_affector_storages_owner_skillrq_def)
  then show "snd (register_affector fit reg a) = []"
    by (simp add: register_affector_Inr)
  from st show "a \<in> get_data (affector_owner_skillrq (fst (register_affector fit reg a)))
                (skill_type_id_of fit a)"
    by (simp add: register_affector_Inr get_data_add_data_entry)
qed

text \<open>
  At the example fit: a \<open>domain\<close> affector carried by the ship, one carried by the
  character, one carried by the module, and an \<open>owner_skillrq\<close> affector carried
  by the module.
\<close>

theorem contextize_self_witness:
  "contextize_tgt_filter_domain example_fit (example_affector 1 Filter_domain Domain_self None)
     = Inr Domain_ship
   \<and> contextize_tgt_filter_domain example_fit
       (example_affector 2 Filter_domain_group Domain_self (Some 10))
     = Inr Domain_character
   \<and> register_affector example_fit init_register
       (example_affector 3 Filter_domain_skillrq Domain_self (Some 50))
     = (init_register, [Warning_unsupported_target_domain 103 Domain_self])
   \<and> example_affector 3 Filter_owner_skillrq Domain_self (Some 50)
     \<in> get_data (affector_owner_skillrq
          (fst (register_affector example_fit init_register
                 (example_affector 3 Filter_owner_skillrq Domain_self (Some 50))))) (Some 50)"
  using
    contextize_self [of "example_affector 1 Filter_domain Domain_self None"
                        example_fit init_register]
    contextize_self [of "example_affector 2 Filter_domain_group Domain_self (Some 10)"
                        example_fit init_register]
    contextize_self [of "example_affector 3 Filter_domain_skillrq Domain_self (Some 50)"
                        example_fit init_register]
    contextize_self [of "example_affector 3 Filter_owner_skillrq Domain_self (Some 50)"
                        example_fit init_register]
  by (simp add: example_affector_simps example_fit_simps skill_type_id_of_def)

section \<open>Unregistering an affectee\<close>

lemma unregister_affectee_affector_fields:
  "affector_item_other (unregister_affectee fit reg x) = affector_item_other reg"
  "affector_item_active (unregister_affectee fit reg x) = (affector_item_active reg)(x := None)"
  "affector_item_awaitable (unregister_affectee fit reg x) =
     add_data_entries (affector_item_awaitable reg) carrier_item
       {a \<in> get_data (affector_item_active reg) x.
          tgt_domain (modifier a) = Domain_ship \<or> tgt_domain (modifier a) = Domain_character
          \<or> tgt_domain (modifier a) = Domain_self}"
  "affector_domain (unregister_affectee fit reg x) = affector_domain reg"
  "affector_domain_group (unregister_affectee fit reg x) = affector_domain_group reg"
  "affector_domain_skillrq (unregister_affectee fit reg x) = affector_domain_skillrq reg"
  "affector_owner_skillrq (unregister_affectee fit reg x) = affector_owner_skillrq reg"
  by (auto simp: unregister_affectee_def deactivate_direct_affectors_def Let_def
      fold_rm_affectee_entry_frame get_data_def add_data_entries_empty)

lemma unregister_affectee_not_added:
  assumes "a \<in> affector_storage_data (unregister_affectee fit reg x) sl"
    and "tgt_domain (modifier a) \<notin> {Domain_ship, Domain_character, Domain_self}"
  shows "a \<in> affector_storage_data reg sl"
  using assms
  by (cases sl)
    (auto simp: unregister_affectee_affector_fields get_data_add_data_entries get_data_simps
      split: if_splits)

text \<open>
  C3. \<open>unregister_affectee\<close> of an item deletes the entry of the item from
  \<open>affector_item_active\<close>, so that no direct affector is keyed on it any more. Of
  the affectors that were there, each one whose target domain is \<open>self\<close>,
  \<open>character\<close> or \<open>ship\<close> is afterwards in \<open>affector_item_awaitable\<close> under
  its carrier item; each one whose target domain is \<open>other\<close> is in no storage in
  which it was not before, and \<open>affector_item_other\<close> is unchanged.
\<close>

theorem unregister_affectee_deactivates:
  "get_data (affector_item_active (unregister_affectee fit reg x)) x = {}
   \<and> (\<forall>a \<in> get_data (affector_item_active reg) x.
        tgt_domain (modifier a) \<in> {Domain_self, Domain_character, Domain_ship} \<longrightarrow>
          a \<in> get_data (affector_item_awaitable (unregister_affectee fit reg x)) (carrier_item a))
   \<and> (\<forall>a \<in> get_data (affector_item_active reg) x.
        tgt_domain (modifier a) = Domain_other \<longrightarrow>
          (\<forall>sl. a \<in> affector_storage_data (unregister_affectee fit reg x) sl \<longrightarrow>
                a \<in> affector_storage_data reg sl))
   \<and> affector_item_other (unregister_affectee fit reg x) = affector_item_other reg"
proof (intro conjI ballI impI allI)
  show "get_data (affector_item_active (unregister_affectee fit reg x)) x = {}"
    by (simp add: unregister_affectee_affector_fields get_data_simps)
next
  fix a
  assume "a \<in> get_data (affector_item_active reg) x"
    and "tgt_domain (modifier a) \<in> {Domain_self, Domain_character, Domain_ship}"
  then show "a \<in> get_data (affector_item_awaitable (unregister_affectee fit reg x)) (carrier_item a)"
    by (auto simp: unregister_affectee_affector_fields get_data_add_data_entries)
next
  fix a sl
  assume "tgt_domain (modifier a) = Domain_other"
    and "a \<in> affector_storage_data (unregister_affectee fit reg x) sl"
  then show "a \<in> affector_storage_data reg sl"
    using unregister_affectee_not_added [of a fit reg x sl] by simp
next
  show "affector_item_other (unregister_affectee fit reg x) = affector_item_other reg"
    by (simp add: unregister_affectee_affector_fields)
qed

lemma register_affectee_module:
  "register_affectee example_fit init_register 3 =
     init_register
       \<lparr>affectee := {3},
        affectee_domain := [Domain_ship \<mapsto> {3}],
        affectee_domain_group := [(Domain_ship, Some 10) \<mapsto> {3}],
        affectee_domain_skillrq := [(Domain_ship, Some 50) \<mapsto> {3}]\<rparr>"
  by (simp add: register_affectee_def get_affectee_storages_def example_fit_simps
      init_register_def add_data_entry_def get_data_def activate_direct_affectors_def
      awaitable_to_activate_def other_to_activate_def)

lemma example_register_value:
  "example_register =
     init_register
       \<lparr>affectee := {3},
        affectee_domain := [Domain_ship \<mapsto> {3}],
        affectee_domain_group := [(Domain_ship, Some 10) \<mapsto> {3}],
        affectee_domain_skillrq := [(Domain_ship, Some 50) \<mapsto> {3}],
        affector_item_other := [4 \<mapsto> {example_affector 4 Filter_item Domain_other None}],
        affector_item_active :=
          [3 \<mapsto> {example_affector 4 Filter_item Domain_other None,
                  example_affector 3 Filter_item Domain_self None}]\<rparr>"
  unfolding example_register_def register_affectee_module
  by (simp add: register_affector_def
      get_affector_storages_def get_affector_storages_item_def
      get_affector_storages_item_self_def get_affector_storages_item_other_def
      get_registered_affectees_def example_affector_simps example_fit_simps
      init_register_def add_data_entry_def get_data_def)

text \<open>
  At the example register, unregistering the module: its own affector goes back to
  the awaitable storage, the affector of the charge goes nowhere.
\<close>

theorem unregister_affectee_deactivates_witness:
  "get_data (affector_item_active example_register) 3
     = {example_affector 4 Filter_item Domain_other None,
        example_affector 3 Filter_item Domain_self None}
   \<and> get_data (affector_item_active (unregister_affectee example_fit example_register 3)) 3 = {}
   \<and> example_affector 3 Filter_item Domain_self None
     \<in> get_data (affector_item_awaitable (unregister_affectee example_fit example_register 3)) 3
   \<and> example_affector 4 Filter_item Domain_other None
     \<notin> get_data (affector_item_awaitable (unregister_affectee example_fit example_register 3)) 4
   \<and> affector_item_other (unregister_affectee example_fit example_register 3)
     = [4 \<mapsto> {example_affector 4 Filter_item Domain_other None}]"
proof -
  note th = unregister_affectee_deactivates [of example_fit example_register 3]
  have act: "get_data (affector_item_active example_register) 3
     = {example_affector 4 Filter_item Domain_other None,
        example_affector 3 Filter_item Domain_self None}"
    by (simp add: example_register_value init_register_def get_data_simps)
  from th have gone:
    "get_data (affector_item_active (unregister_affectee example_fit example_register 3)) 3 = {}"
    by blast
  from th act have demoted: "example_affector 3 Filter_item Domain_self None
     \<in> get_data (affector_item_awaitable (unregister_affectee example_fit example_register 3)) 3"
    by (simp add: example_affector_simps)
  from th act have "\<forall>sl. example_affector 4 Filter_item Domain_other None
        \<in> affector_storage_data (unregister_affectee example_fit example_register 3) sl \<longrightarrow>
      example_affector 4 Filter_item Domain_other None \<in> affector_storage_data example_register sl"
    by (simp add: example_affector_simps)
  then have "example_affector 4 Filter_item Domain_other None
        \<in> affector_storage_data (unregister_affectee example_fit example_register 3)
            (In_affector_item_awaitable 4) \<longrightarrow>
      example_affector 4 Filter_item Domain_other None
        \<in> affector_storage_data example_register (In_affector_item_awaitable 4)"
    by (rule spec)
  then have dropped: "example_affector 4 Filter_item Domain_other None
     \<notin> get_data (affector_item_awaitable (unregister_affectee example_fit example_register 3)) 4"
    by (simp add: example_register_value init_register_def get_data_simps)
  from th have other: "affector_item_other (unregister_affectee example_fit example_register 3)
     = [4 \<mapsto> {example_affector 4 Filter_item Domain_other None}]"
    by (simp add: example_register_value init_register_def)
  from act gone demoted dropped other show ?thesis by blast
qed

section \<open>The four operations, storage by storage\<close>

lemma get_data_nonempty_dom: "a \<in> get_data m k \<Longrightarrow> k \<in> dom m"
  by (auto simp: get_data_def split: option.splits)

lemma awaitable_to_activate_iff:
  "a \<in> awaitable_to_activate fit reg x \<longleftrightarrow>
     (\<exists>c. a \<in> get_data (affector_item_awaitable reg) c
          \<and> (tgt_domain (modifier a) = Domain_ship \<and> Some x = current_ship fit
             \<or> tgt_domain (modifier a) = Domain_character \<and> Some x = current_char fit
             \<or> tgt_domain (modifier a) = Domain_self \<and> x = c))"
  by (auto simp: awaitable_to_activate_def Let_def dest: get_data_nonempty_dom)

lemma other_to_activate_iff:
  "a \<in> other_to_activate fit reg x \<longleftrightarrow>
     (\<exists>c. a \<in> get_data (affector_item_other reg) c \<and> x \<in> set (others fit c))"
  by (auto simp: other_to_activate_def dest: get_data_nonempty_dom)

lemma awaitable_to_activate_cong:
  "affector_item_awaitable reg' = affector_item_awaitable reg \<Longrightarrow>
     awaitable_to_activate fit reg' x = awaitable_to_activate fit reg x"
  by (simp add: awaitable_to_activate_def)

lemma other_to_activate_cong:
  "affector_item_other reg' = affector_item_other reg \<Longrightarrow>
     other_to_activate fit reg' x = other_to_activate fit reg x"
  by (simp add: other_to_activate_def)

lemma activate_direct_affectors_frame:
  "affectee (activate_direct_affectors fit reg x) = affectee reg"
  "affectee_domain (activate_direct_affectors fit reg x) = affectee_domain reg"
  "affectee_domain_group (activate_direct_affectors fit reg x) = affectee_domain_group reg"
  "affectee_domain_skillrq (activate_direct_affectors fit reg x) = affectee_domain_skillrq reg"
  "affectee_owner_skillrq (activate_direct_affectors fit reg x) = affectee_owner_skillrq reg"
  "affector_item_other (activate_direct_affectors fit reg x) = affector_item_other reg"
  "affector_domain (activate_direct_affectors fit reg x) = affector_domain reg"
  "affector_domain_group (activate_direct_affectors fit reg x) = affector_domain_group reg"
  "affector_domain_skillrq (activate_direct_affectors fit reg x) = affector_domain_skillrq reg"
  "affector_owner_skillrq (activate_direct_affectors fit reg x) = affector_owner_skillrq reg"
  by (simp_all add: activate_direct_affectors_def Let_def)

lemma activate_direct_affectors_awaitable:
  "affector_item_awaitable (activate_direct_affectors fit reg x) =
     rm_data_entries (affector_item_awaitable reg) carrier_item (awaitable_to_activate fit reg x)"
  by (simp add: activate_direct_affectors_def Let_def rm_data_entries_empty)

lemma activate_direct_affectors_active:
  "affector_item_active (activate_direct_affectors fit reg x) =
     (if awaitable_to_activate fit reg x \<union> other_to_activate fit reg x = {}
      then affector_item_active reg
      else (affector_item_active reg)
             (x \<mapsto> get_data (affector_item_active reg) x
                    \<union> awaitable_to_activate fit reg x \<union> other_to_activate fit reg x))"
proof -
  have o: "other_to_activate fit
             (reg\<lparr>affector_item_awaitable := aw, affector_item_active := ac\<rparr>) x
           = other_to_activate fit reg x" for aw ac
    by (rule other_to_activate_cong) simp
  show ?thesis
  proof (cases "awaitable_to_activate fit reg x = {}")
    case True
    then show ?thesis
      by (simp add: activate_direct_affectors_def Let_def add_data_set_def)
  next
    case False
    then show ?thesis
      by (simp add: activate_direct_affectors_def Let_def add_data_set_def o get_data_simps
          Un_assoc)
  qed
qed

lemma activate_direct_affectors_active_data:
  "get_data (affector_item_active (activate_direct_affectors fit reg x)) k =
     (if k = x
      then get_data (affector_item_active reg) x
           \<union> awaitable_to_activate fit reg x \<union> other_to_activate fit reg x
      else get_data (affector_item_active reg) k)"
  by (simp add: activate_direct_affectors_active get_data_simps)

lemma register_affectee_frame:
  "affectee (register_affectee fit reg x) = insert x (affectee reg)"
  "affector_item_other (register_affectee fit reg x) = affector_item_other reg"
  "affector_domain (register_affectee fit reg x) = affector_domain reg"
  "affector_domain_group (register_affectee fit reg x) = affector_domain_group reg"
  "affector_domain_skillrq (register_affectee fit reg x) = affector_domain_skillrq reg"
  "affector_owner_skillrq (register_affectee fit reg x) = affector_owner_skillrq reg"
  by (simp_all add: register_affectee_def activate_direct_affectors_frame
      fold_add_affectee_entry_frame)

lemma activate_direct_affectors_affectee_data:
  "affectee_storage_data (activate_direct_affectors fit reg x) sl = affectee_storage_data reg sl"
  by (cases sl) (simp_all add: activate_direct_affectors_frame)

lemma register_affectee_affectee_data:
  "affectee_storage_data (register_affectee fit reg x) sl =
     (if sl \<in> set (get_affectee_storages fit x)
      then insert x (affectee_storage_data reg sl) else affectee_storage_data reg sl)"
proof -
  have "affectee_storage_data (reg\<lparr>affectee := insert x (affectee reg)\<rparr>) sl
        = affectee_storage_data reg sl"
    by (cases sl) simp_all
  then show ?thesis
    by (simp add: register_affectee_def activate_direct_affectors_affectee_data
        fold_add_affectee_entry_data)
qed

lemma register_affectee_to_activate:
  "awaitable_to_activate fit
     (fold (add_affectee_entry x) sls (reg\<lparr>affectee := insert x (affectee reg)\<rparr>)) x
   = awaitable_to_activate fit reg x"
  "other_to_activate fit
     (fold (add_affectee_entry x) sls (reg\<lparr>affectee := insert x (affectee reg)\<rparr>)) x
   = other_to_activate fit reg x"
  by (rule awaitable_to_activate_cong other_to_activate_cong,
      simp add: fold_add_affectee_entry_frame)+

lemma register_affectee_awaitable:
  "affector_item_awaitable (register_affectee fit reg x) =
     rm_data_entries (affector_item_awaitable reg) carrier_item (awaitable_to_activate fit reg x)"
  by (simp add: register_affectee_def activate_direct_affectors_awaitable
      fold_add_affectee_entry_frame register_affectee_to_activate)

lemma register_affectee_active:
  "affector_item_active (register_affectee fit reg x) =
     (if awaitable_to_activate fit reg x \<union> other_to_activate fit reg x = {}
      then affector_item_active reg
      else (affector_item_active reg)
             (x \<mapsto> get_data (affector_item_active reg) x
                    \<union> awaitable_to_activate fit reg x \<union> other_to_activate fit reg x))"
  by (simp add: register_affectee_def activate_direct_affectors_active
      fold_add_affectee_entry_frame register_affectee_to_activate)

lemma register_affectee_active_data:
  "get_data (affector_item_active (register_affectee fit reg x)) k =
     (if k = x
      then get_data (affector_item_active reg) x
           \<union> awaitable_to_activate fit reg x \<union> other_to_activate fit reg x
      else get_data (affector_item_active reg) k)"
  by (simp add: register_affectee_active get_data_simps)

lemma unregister_affectee_affectee:
  "affectee (unregister_affectee fit reg x) = affectee reg - {x}"
  by (simp add: unregister_affectee_def deactivate_direct_affectors_def Let_def
      fold_rm_affectee_entry_frame)

lemma deactivate_direct_affectors_affectee_data:
  "affectee_storage_data (deactivate_direct_affectors reg x) sl = affectee_storage_data reg sl"
  by (cases sl) (simp_all add: deactivate_direct_affectors_def Let_def)

lemma unregister_affectee_affectee_data:
  "affectee_storage_data (unregister_affectee fit reg x) sl =
     (if sl \<in> set (get_affectee_storages fit x)
      then affectee_storage_data reg sl - {x} else affectee_storage_data reg sl)"
proof -
  have "affectee_storage_data (reg\<lparr>affectee := affectee reg - {x}\<rparr>) sl
        = affectee_storage_data reg sl"
    by (cases sl) simp_all
  then show ?thesis
    by (simp add: unregister_affectee_def deactivate_direct_affectors_affectee_data
        fold_rm_affectee_entry_data)
qed

section \<open>The invariant of reachable registers\<close>

subsection \<open>Storages without empty sets\<close>

lemma no_empty_empty: "no_empty Map.empty"
  by (simp add: no_empty_def)

lemma no_empty_add_data_entry: "no_empty m \<Longrightarrow> no_empty (add_data_entry m k d)"
  by (simp add: no_empty_def add_data_entry_def)

lemma no_empty_rm_data_entry: "no_empty m \<Longrightarrow> no_empty (rm_data_entry m k d)"
  by (auto simp: no_empty_def rm_data_entry_def split: option.splits)

lemma no_empty_ext:
  assumes "no_empty m" and "no_empty m'" and "\<And>k. get_data m k = get_data m' k"
  shows "m = m'"
proof
  fix k
  from assms(3) [of k] assms(1,2) show "m k = m' k"
    by (cases "m k"; cases "m' k") (auto simp: get_data_def no_empty_def)
qed

lemma affectee_no_empty_add: "affectee_no_empty reg \<Longrightarrow> affectee_no_empty (add_affectee_entry x sl reg)"
  by (cases sl) (simp_all add: affectee_no_empty_def no_empty_add_data_entry)

lemma affectee_no_empty_rm: "affectee_no_empty reg \<Longrightarrow> affectee_no_empty (rm_affectee_entry x sl reg)"
  by (cases sl) (simp_all add: affectee_no_empty_def no_empty_rm_data_entry)

lemma affectee_no_empty_fold_add:
  "affectee_no_empty reg \<Longrightarrow> affectee_no_empty (fold (add_affectee_entry x) sls reg)"
  by (induction sls arbitrary: reg) (simp_all add: affectee_no_empty_add)

lemma affectee_no_empty_fold_rm:
  "affectee_no_empty reg \<Longrightarrow> affectee_no_empty (fold (rm_affectee_entry x) sls reg)"
  by (induction sls arbitrary: reg) (simp_all add: affectee_no_empty_rm)

lemma affectee_no_empty_cong:
  assumes "affectee_domain reg' = affectee_domain reg"
    and "affectee_domain_group reg' = affectee_domain_group reg"
    and "affectee_domain_skillrq reg' = affectee_domain_skillrq reg"
    and "affectee_owner_skillrq reg' = affectee_owner_skillrq reg"
  shows "affectee_no_empty reg' = affectee_no_empty reg"
  using assms by (simp add: affectee_no_empty_def)

lemma affectee_no_empty_register_affectee:
  "affectee_no_empty reg \<Longrightarrow> affectee_no_empty (register_affectee fit reg x)"
proof -
  assume "affectee_no_empty reg"
  then have "affectee_no_empty (reg\<lparr>affectee := insert x (affectee reg)\<rparr>)"
    by (simp add: affectee_no_empty_def)
  then have "affectee_no_empty (fold (add_affectee_entry x) (get_affectee_storages fit x)
                 (reg\<lparr>affectee := insert x (affectee reg)\<rparr>))"
    by (rule affectee_no_empty_fold_add)
  then show ?thesis
    by (simp add: register_affectee_def
        affectee_no_empty_cong [OF activate_direct_affectors_frame(2-5)])
qed

lemma deactivate_direct_affectors_frame:
  "affectee (deactivate_direct_affectors reg x) = affectee reg"
  "affectee_domain (deactivate_direct_affectors reg x) = affectee_domain reg"
  "affectee_domain_group (deactivate_direct_affectors reg x) = affectee_domain_group reg"
  "affectee_domain_skillrq (deactivate_direct_affectors reg x) = affectee_domain_skillrq reg"
  "affectee_owner_skillrq (deactivate_direct_affectors reg x) = affectee_owner_skillrq reg"
  by (simp_all add: deactivate_direct_affectors_def Let_def)

lemma affectee_no_empty_unregister_affectee:
  "affectee_no_empty reg \<Longrightarrow> affectee_no_empty (unregister_affectee fit reg x)"
proof -
  assume "affectee_no_empty reg"
  then have "affectee_no_empty (reg\<lparr>affectee := affectee reg - {x}\<rparr>)"
    by (simp add: affectee_no_empty_def)
  then have "affectee_no_empty (fold (rm_affectee_entry x) (get_affectee_storages fit x)
                 (reg\<lparr>affectee := affectee reg - {x}\<rparr>))"
    by (rule affectee_no_empty_fold_rm)
  then show ?thesis
    by (simp add: unregister_affectee_def
        affectee_no_empty_cong [OF deactivate_direct_affectors_frame(2-5)])
qed

subsection \<open>The invariant under the affectee operations\<close>

lemma inv_affectees_register_affectee:
  "inv_affectees fit reg \<Longrightarrow> inv_affectees fit (register_affectee fit reg x)"
  by (auto simp: inv_affectees_def register_affectee_affectee_data register_affectee_frame
      split: if_splits)

lemma inv_affectees_unregister_affectee:
  "inv_affectees fit reg \<Longrightarrow> inv_affectees fit (unregister_affectee fit reg x)"
  by (auto simp: inv_affectees_def unregister_affectee_affectee_data
      unregister_affectee_affectee split: if_splits)

lemma inv_active_register_affectee:
  "inv_active reg \<Longrightarrow> inv_active (register_affectee fit reg x)"
  by (auto simp: inv_active_def register_affectee_active register_affectee_frame
      split: if_splits)

lemma inv_active_unregister_affectee:
  "inv_active reg \<Longrightarrow> inv_active (unregister_affectee fit reg x)"
  by (auto simp: inv_active_def unregister_affectee_affector_fields
      unregister_affectee_affectee split: if_splits)

lemma inv_awaitable_register_affectee:
  "inv_awaitable reg \<Longrightarrow> inv_awaitable (register_affectee fit reg x)"
  by (simp add: inv_awaitable_def register_affectee_awaitable get_data_rm_data_entries)

lemma inv_awaitable_unregister_affectee:
  "inv_awaitable reg \<Longrightarrow> inv_awaitable (unregister_affectee fit reg x)"
  by (auto simp: inv_awaitable_def unregister_affectee_affector_fields
      get_data_add_data_entries)

lemma inv_other_register_affectee:
  "inv_other reg \<Longrightarrow> inv_other (register_affectee fit reg x)"
  by (simp add: inv_other_def register_affectee_frame)

lemma inv_other_unregister_affectee:
  "inv_other reg \<Longrightarrow> inv_other (unregister_affectee fit reg x)"
  by (simp add: inv_other_def unregister_affectee_affector_fields)

lemma register_inv_register_affectee:
  "register_inv fit reg \<Longrightarrow> register_inv fit (register_affectee fit reg x)"
  by (simp add: register_inv_def inv_affectees_register_affectee inv_active_register_affectee
      inv_awaitable_register_affectee inv_other_register_affectee
      affectee_no_empty_register_affectee)

lemma register_inv_unregister_affectee:
  "register_inv fit reg \<Longrightarrow> register_inv fit (unregister_affectee fit reg x)"
  by (simp add: register_inv_def inv_affectees_unregister_affectee
      inv_active_unregister_affectee inv_awaitable_unregister_affectee
      inv_other_unregister_affectee affectee_no_empty_unregister_affectee)

subsection \<open>The invariant under the affector operations\<close>

lemma get_affector_storages_sound:
  assumes "get_affector_storages fit reg a = Inr sls" and "sl \<in> set sls"
  shows "(case sl of
            In_affector_item_active k \<Rightarrow> k \<in> affectee reg
          | In_affector_item_awaitable c \<Rightarrow> c = carrier_item a
          | In_affector_item_other c \<Rightarrow> tgt_domain (modifier a) = Domain_other
          | _ \<Rightarrow> True)"
  using assms
  by (auto simp: get_affector_storages_def get_affector_storages_item_def
      get_affector_storages_item_self_def get_affector_storages_item_character_def
      get_affector_storages_item_ship_def get_affector_storages_item_other_def
      get_affector_storages_domain_def get_affector_storages_domain_group_def
      get_affector_storages_domain_skillrq_def get_affector_storages_owner_skillrq_def
      get_registered_affectees_def
      split: ModTgtFilter.splits ModDomain.splits option.splits sum.splits if_splits)

lemma fold_add_affector_entry_affectee_data:
  "affectee_storage_data (fold (add_affector_entry a) sls reg) sl = affectee_storage_data reg sl"
  by (cases sl) (simp_all add: fold_add_affector_entry_frame)

lemma fold_rm_affector_entry_affectee_data:
  "affectee_storage_data (fold (rm_affector_entry a) sls reg) sl = affectee_storage_data reg sl"
  by (cases sl) (simp_all add: fold_rm_affector_entry_frame)

lemma fold_add_affector_entry_active_dom:
  "dom (affector_item_active (fold (add_affector_entry a) sls reg))
     \<subseteq> dom (affector_item_active reg) \<union> {k. In_affector_item_active k \<in> set sls}"
proof (induction sls arbitrary: reg)
  case Nil
  show ?case by simp
next
  case (Cons sl sls)
  have "dom (affector_item_active (add_affector_entry a sl reg))
          \<subseteq> dom (affector_item_active reg) \<union> {k. In_affector_item_active k = sl}"
    by (cases sl) (auto simp: add_data_entry_def)
  with Cons [of "add_affector_entry a sl reg"] show ?case by auto
qed

lemma fold_rm_affector_entry_active_dom:
  "dom (affector_item_active (fold (rm_affector_entry a) sls reg))
     \<subseteq> dom (affector_item_active reg)"
proof (induction sls arbitrary: reg)
  case Nil
  show ?case by simp
next
  case (Cons sl sls)
  have "dom (affector_item_active (rm_affector_entry a sl reg)) \<subseteq> dom (affector_item_active reg)"
    by (cases sl) (auto simp: rm_data_entry_def split: option.splits if_splits)
  with Cons [of "rm_affector_entry a sl reg"] show ?case by auto
qed

lemma fold_add_affector_entry_fields:
  "get_data (affector_item_awaitable (fold (add_affector_entry a) sls reg)) c =
     (if In_affector_item_awaitable c \<in> set sls
      then insert a (get_data (affector_item_awaitable reg) c)
      else get_data (affector_item_awaitable reg) c)"
  "get_data (affector_item_other (fold (add_affector_entry a) sls reg)) c =
     (if In_affector_item_other c \<in> set sls
      then insert a (get_data (affector_item_other reg) c)
      else get_data (affector_item_other reg) c)"
  "get_data (affector_item_active (fold (add_affector_entry a) sls reg)) c =
     (if In_affector_item_active c \<in> set sls
      then insert a (get_data (affector_item_active reg) c)
      else get_data (affector_item_active reg) c)"
  using fold_add_affector_entry_data [of a sls reg "In_affector_item_awaitable c"]
    fold_add_affector_entry_data [of a sls reg "In_affector_item_other c"]
    fold_add_affector_entry_data [of a sls reg "In_affector_item_active c"]
  by simp_all

lemma fold_rm_affector_entry_fields:
  "get_data (affector_item_awaitable (fold (rm_affector_entry a) sls reg)) c =
     (if In_affector_item_awaitable c \<in> set sls
      then get_data (affector_item_awaitable reg) c - {a}
      else get_data (affector_item_awaitable reg) c)"
  "get_data (affector_item_other (fold (rm_affector_entry a) sls reg)) c =
     (if In_affector_item_other c \<in> set sls
      then get_data (affector_item_other reg) c - {a}
      else get_data (affector_item_other reg) c)"
  "get_data (affector_item_active (fold (rm_affector_entry a) sls reg)) c =
     (if In_affector_item_active c \<in> set sls
      then get_data (affector_item_active reg) c - {a}
      else get_data (affector_item_active reg) c)"
  using fold_rm_affector_entry_data [of a sls reg "In_affector_item_awaitable c"]
    fold_rm_affector_entry_data [of a sls reg "In_affector_item_other c"]
    fold_rm_affector_entry_data [of a sls reg "In_affector_item_active c"]
  by simp_all

lemma register_inv_register_affector:
  assumes "register_inv fit reg"
  shows "register_inv fit (fst (register_affector fit reg a))"
proof (cases "get_affector_storages fit reg a")
  case (Inl e)
  with assms show ?thesis by (simp add: register_affector_Inl)
next
  case (Inr sls)
  let ?reg' = "fold (add_affector_entry a) sls reg"
  note sound = get_affector_storages_sound [OF Inr]
  from assms have "inv_affectees fit ?reg'"
    by (simp add: register_inv_def inv_affectees_def fold_add_affector_entry_affectee_data
        fold_add_affector_entry_frame)
  moreover from assms have "affectee_no_empty ?reg'"
    by (simp add: register_inv_def affectee_no_empty_def fold_add_affector_entry_frame)
  moreover have "inv_active ?reg'"
  proof -
    have "k \<in> affectee reg" if "In_affector_item_active k \<in> set sls" for k
      using sound [OF that] by simp
    with assms fold_add_affector_entry_active_dom [of a sls reg] show ?thesis
      by (auto simp: register_inv_def inv_active_def fold_add_affector_entry_frame)
  qed
  moreover have "inv_awaitable ?reg'"
  proof -
    have "c = carrier_item a" if "In_affector_item_awaitable c \<in> set sls" for c
      using sound [OF that] by simp
    with assms show ?thesis
      by (auto simp: register_inv_def inv_awaitable_def fold_add_affector_entry_fields
          split: if_splits)
  qed
  moreover have "inv_other ?reg'"
  proof -
    have "tgt_domain (modifier a) = Domain_other" if "In_affector_item_other c \<in> set sls" for c
      using sound [OF that] by simp
    with assms show ?thesis
      by (auto simp: register_inv_def inv_other_def fold_add_affector_entry_fields
          split: if_splits)
  qed
  ultimately show ?thesis
    by (simp add: register_inv_def register_affector_Inr [OF Inr])
qed

lemma unregister_affector_Inl:
  "get_affector_storages fit reg a = Inl e \<Longrightarrow>
     unregister_affector fit reg a = (reg, handle_affector_errors fit e a)"
  by (simp add: unregister_affector_def)

lemma unregister_affector_Inr:
  "get_affector_storages fit reg a = Inr sls \<Longrightarrow>
     unregister_affector fit reg a = (fold (rm_affector_entry a) sls reg, [])"
  by (simp add: unregister_affector_def)

lemma register_inv_unregister_affector:
  assumes "register_inv fit reg"
  shows "register_inv fit (fst (unregister_affector fit reg a))"
proof (cases "get_affector_storages fit reg a")
  case (Inl e)
  with assms show ?thesis by (simp add: unregister_affector_Inl)
next
  case (Inr sls)
  let ?reg' = "fold (rm_affector_entry a) sls reg"
  from assms have "inv_affectees fit ?reg'"
    by (simp add: register_inv_def inv_affectees_def fold_rm_affector_entry_affectee_data
        fold_rm_affector_entry_frame)
  moreover from assms have "affectee_no_empty ?reg'"
    by (simp add: register_inv_def affectee_no_empty_def fold_rm_affector_entry_frame)
  moreover from assms fold_rm_affector_entry_active_dom [of a sls reg] have "inv_active ?reg'"
    by (auto simp: register_inv_def inv_active_def fold_rm_affector_entry_frame)
  moreover from assms have "inv_awaitable ?reg'"
    by (auto simp: register_inv_def inv_awaitable_def fold_rm_affector_entry_fields
        split: if_splits)
  moreover from assms have "inv_other ?reg'"
    by (auto simp: register_inv_def inv_other_def fold_rm_affector_entry_fields
        split: if_splits)
  ultimately show ?thesis
    by (simp add: register_inv_def unregister_affector_Inr [OF Inr])
qed

lemma init_register_affectee_data: "affectee_storage_data init_register sl = {}"
  by (cases sl) (simp_all add: init_register_def get_data_def)

lemma register_inv_init: "register_inv fit init_register"
proof -
  have "inv_affectees fit init_register"
    by (simp add: inv_affectees_def init_register_affectee_data)
  moreover have "inv_active init_register \<and> inv_awaitable init_register
      \<and> inv_other init_register \<and> affectee_no_empty init_register"
    by (simp add: inv_active_def inv_awaitable_def inv_other_def affectee_no_empty_def
        no_empty_def init_register_def get_data_def)
  ultimately show ?thesis by (simp add: register_inv_def)
qed

lemma reachable_register_inv: "reachable fit reg R \<Longrightarrow> register_inv fit reg"
  by (induction rule: reachable.induct)
    (simp_all add: register_inv_init register_inv_register_affectee
      register_inv_unregister_affectee register_inv_register_affector
      register_inv_unregister_affector)

section \<open>Registering and unregistering an item\<close>

lemma add_rm_data_entries:
  assumes "\<forall>d\<in>D. d \<in> get_data m (f d)"
  shows "add_data_entries (rm_data_entries m f D) f D = m"
proof
  fix k
  show "add_data_entries (rm_data_entries m f D) f D k = m k"
  proof (cases "\<exists>d\<in>D. f d = k")
    case False
    then show ?thesis by (simp add: add_data_entries_def rm_data_entries_def)
  next
    case True
    then obtain d where d: "d \<in> D" "f d = k" by blast
    with assms have "d \<in> get_data m k" by blast
    then obtain s where s: "m k = Some s" by (auto simp: get_data_def split: option.splits)
    from assms have "{d \<in> D. f d = k} \<subseteq> get_data m k" by blast
    with s have "s - {d \<in> D. f d = k} \<union> {d \<in> D. f d = k} = s"
      by (auto simp: get_data_def)
    with True s show ?thesis
      by (simp add: add_data_entries_def get_data_rm_data_entries) (simp add: get_data_def)
  qed
qed

lemma affectee_maps_ext:
  assumes "affectee_no_empty reg" and "affectee_no_empty reg'"
    and "\<And>sl. affectee_storage_data reg' sl = affectee_storage_data reg sl"
  shows "affectee_domain reg' = affectee_domain reg"
    and "affectee_domain_group reg' = affectee_domain_group reg"
    and "affectee_domain_skillrq reg' = affectee_domain_skillrq reg"
    and "affectee_owner_skillrq reg' = affectee_owner_skillrq reg"
proof -
  show "affectee_domain reg' = affectee_domain reg"
    using assms(1,2) assms(3) [of "In_affectee_domain k" for k]
    by (intro no_empty_ext) (simp_all add: affectee_no_empty_def)
  show "affectee_domain_group reg' = affectee_domain_group reg"
    using assms(1,2) assms(3) [of "In_affectee_domain_group k" for k]
    by (intro no_empty_ext) (simp_all add: affectee_no_empty_def)
  show "affectee_domain_skillrq reg' = affectee_domain_skillrq reg"
    using assms(1,2) assms(3) [of "In_affectee_domain_skillrq k" for k]
    by (intro no_empty_ext) (simp_all add: affectee_no_empty_def)
  show "affectee_owner_skillrq reg' = affectee_owner_skillrq reg"
    using assms(1,2) assms(3) [of "In_affectee_owner_skillrq k" for k]
    by (intro no_empty_ext) (simp_all add: affectee_no_empty_def)
qed

lemma register_unregister_affectee_inv:
  assumes inv: "register_inv fit reg" and x: "x \<notin> affectee reg"
  shows "unregister_affectee fit (register_affectee fit reg x) x = reg"
proof -
  let ?reg1 = "register_affectee fit reg x"
  let ?reg2 = "unregister_affectee fit ?reg1 x"
  let ?D = "awaitable_to_activate fit reg x"
  let ?O = "other_to_activate fit reg x"
  from inv have inv2: "register_inv fit ?reg2"
    by (simp add: register_inv_register_affectee register_inv_unregister_affectee)
  have affectee: "affectee ?reg2 = affectee reg"
    using x by (simp add: unregister_affectee_affectee register_affectee_frame)
  have data: "affectee_storage_data ?reg2 sl = affectee_storage_data reg sl" for sl
  proof -
    from inv x have "x \<notin> affectee_storage_data reg sl"
      by (auto simp: register_inv_def inv_affectees_def)
    then show ?thesis
      by (simp add: unregister_affectee_affectee_data register_affectee_affectee_data)
  qed
  from inv inv2 have ne: "affectee_no_empty reg" "affectee_no_empty ?reg2"
    by (simp_all add: register_inv_def)
  note maps = affectee_maps_ext [OF ne data]
  from inv x have none: "affector_item_active reg x = None"
    by (auto simp: register_inv_def inv_active_def)
  then have active: "affector_item_active ?reg2 = affector_item_active reg"
    by (auto simp: unregister_affectee_affector_fields register_affectee_active)
  have awaitable: "affector_item_awaitable ?reg2 = affector_item_awaitable reg"
  proof -
    from none have "get_data (affector_item_active reg) x = {}"
      by (simp add: get_data_def)
    then have "get_data (affector_item_active ?reg1) x = ?D \<union> ?O"
      by (simp add: register_affectee_active_data)
    moreover have "tgt_domain (modifier a) = Domain_other" if "a \<in> ?O" for a
      using that inv by (auto simp: other_to_activate_iff register_inv_def inv_other_def)
    moreover have "tgt_domain (modifier a) = Domain_ship
        \<or> tgt_domain (modifier a) = Domain_character \<or> tgt_domain (modifier a) = Domain_self"
      if "a \<in> ?D" for a
      using that by (auto simp: awaitable_to_activate_iff)
    ultimately have "{a \<in> get_data (affector_item_active ?reg1) x.
          tgt_domain (modifier a) = Domain_ship \<or> tgt_domain (modifier a) = Domain_character
          \<or> tgt_domain (modifier a) = Domain_self} = ?D"
      by auto
    moreover have "\<forall>a\<in>?D. a \<in> get_data (affector_item_awaitable reg) (carrier_item a)"
      using inv by (auto simp: awaitable_to_activate_iff register_inv_def inv_awaitable_def)
    ultimately show ?thesis
      by (simp add: unregister_affectee_affector_fields register_affectee_awaitable
          add_rm_data_entries)
  qed
  have rest: "affector_item_other ?reg2 = affector_item_other reg"
    "affector_domain ?reg2 = affector_domain reg"
    "affector_domain_group ?reg2 = affector_domain_group reg"
    "affector_domain_skillrq ?reg2 = affector_domain_skillrq reg"
    "affector_owner_skillrq ?reg2 = affector_owner_skillrq reg"
    by (simp_all add: unregister_affectee_affector_fields register_affectee_frame)
  show ?thesis
    by (rule AffectionRegister.equality) (simp_all add: affectee maps active awaitable rest)
qed

lemma same_items_refl: "same_items fit fit"
  by (simp add: same_items_def)

lemma register_inv_same_items:
  assumes "same_items fit fit'"
  shows "register_inv fit' reg = register_inv fit reg"
proof -
  from assms have "get_affectee_storages fit' x = get_affectee_storages fit x" for x
    by (simp add: same_items_def get_affectee_storages_def cong: option.case_cong)
  then show ?thesis by (simp add: register_inv_def inv_affectees_def)
qed

lemma reachable_rebound_register_inv:
  "reachable_rebound fit reg \<Longrightarrow> register_inv fit reg"
proof (induction rule: reachable_rebound.induct)
  case rebound_init
  show ?case by (rule register_inv_init)
next
  case (rebound_register_affectee reg fit' x)
  then show ?case
    using register_inv_register_affectee [of fit' reg x]
    by (simp add: register_inv_same_items)
next
  case (rebound_unregister_affectee reg fit' x)
  then show ?case
    using register_inv_unregister_affectee [of fit' reg x]
    by (simp add: register_inv_same_items)
next
  case (rebound_register_affector reg fit' a)
  then show ?case
    using register_inv_register_affector [of fit' reg a]
    by (simp add: register_inv_same_items)
next
  case (rebound_unregister_affector reg fit' a)
  then show ?case
    using register_inv_unregister_affector [of fit' reg a]
    by (simp add: register_inv_same_items)
qed

lemma reachable_reachable_rebound: "reachable fit reg R \<Longrightarrow> reachable_rebound fit reg"
  by (induction rule: reachable.induct)
    (auto intro: reachable_rebound.intros same_items_refl)

text \<open>
  C4. In every register that the four operations have built, also when the current
  ship, the current character and the \<open>other\<close> items were bound anew in between,
  registering an item that is not registered and unregistering it at once gives back
  the register as it was: the affectee set and every one of the eleven storages are
  the same dictionaries as before.
\<close>

theorem register_unregister_affectee:
  assumes "reachable_rebound fit reg" and "same_items fit fit'" and "x \<notin> affectee reg"
  shows "unregister_affectee fit' (register_affectee fit' reg x) x = reg"
proof -
  from assms(1,2) have "register_inv fit' reg"
    by (simp add: reachable_rebound_register_inv register_inv_same_items)
  from this assms(3) show ?thesis by (rule register_unregister_affectee_inv)
qed

lemma example_awaiting_register_value:
  "example_awaiting_register =
     init_register
       \<lparr>affector_item_other := [4 \<mapsto> {example_affector 4 Filter_item Domain_other None}],
        affector_item_awaitable := [3 \<mapsto> {example_affector 3 Filter_item Domain_self None}]\<rparr>"
  unfolding example_awaiting_register_def
  by (simp add: register_affector_def
      get_affector_storages_def get_affector_storages_item_def
      get_affector_storages_item_self_def get_affector_storages_item_other_def
      get_registered_affectees_def example_affector_simps example_fit_simps
      init_register_def add_data_entry_def get_data_def)

lemma example_awaiting_register_reachable:
  "reachable example_fit example_awaiting_register
     {example_affector 4 Filter_item Domain_other None,
      example_affector 3 Filter_item Domain_self None}"
  unfolding example_awaiting_register_def
  by (intro reachable.intros)

lemma example_awaiting_register_activates:
  "get_data (affector_item_active (register_affectee example_fit example_awaiting_register 3)) 3
   = {example_affector 4 Filter_item Domain_other None,
      example_affector 3 Filter_item Domain_self None}"
  by (auto simp: register_affectee_active_data awaitable_to_activate_iff other_to_activate_iff
      example_awaiting_register_value init_register_def get_data_simps
      example_affector_simps example_fit_simps split: if_splits)

text \<open>
  At the example fit, with the two affectors registered before the module is:
  registering the module activates both, unregistering it gives the register back.
\<close>

theorem register_unregister_affectee_witness:
  "3 \<notin> affectee example_awaiting_register
   \<and> get_data (affector_item_active (register_affectee example_fit example_awaiting_register 3)) 3
     = {example_affector 4 Filter_item Domain_other None,
        example_affector 3 Filter_item Domain_self None}
   \<and> unregister_affectee example_fit
       (register_affectee example_fit example_awaiting_register 3) 3
     = example_awaiting_register"
proof -
  have x: "3 \<notin> affectee example_awaiting_register"
    by (simp add: example_awaiting_register_value init_register_def)
  from register_unregister_affectee
      [OF reachable_reachable_rebound [OF example_awaiting_register_reachable]
          same_items_refl x]
    x example_awaiting_register_activates
  show ?thesis by simp
qed

section \<open>Registered affectors\<close>

lemma get_affector_storages_cong:
  "affectee reg' = affectee reg \<Longrightarrow>
     get_affector_storages fit reg' a = get_affector_storages fit reg a"
  by (simp add: get_affector_storages_def get_affector_storages_item_def
      get_affector_storages_item_self_def get_affector_storages_item_character_def
      get_affector_storages_item_ship_def get_affector_storages_item_other_def
      get_registered_affectees_def
      split: ModTgtFilter.splits ModDomain.splits option.splits)

lemma inv_registered_register_affector:
  assumes "inv_registered fit reg R"
  shows "inv_registered fit (fst (register_affector fit reg b)) (insert b R)"
proof (cases "get_affector_storages fit reg b")
  case (Inl e)
  with assms show ?thesis
    by (auto simp: inv_registered_def register_affector_Inl)
next
  case (Inr slsb)
  have same: "get_affector_storages fit (fold (add_affector_entry b) slsb reg) a
      = get_affector_storages fit reg a" for a
    by (rule get_affector_storages_cong) (simp add: fold_add_affector_entry_frame)
  from assms Inr show ?thesis
    by (auto simp: inv_registered_def register_affector_Inr [OF Inr] same
        fold_add_affector_entry_data)
qed

lemma inv_registered_unregister_affector:
  assumes "inv_registered fit reg R"
  shows "inv_registered fit (fst (unregister_affector fit reg b)) (R - {b})"
proof (cases "get_affector_storages fit reg b")
  case (Inl e)
  with assms show ?thesis
    by (auto simp: inv_registered_def unregister_affector_Inl)
next
  case (Inr slsb)
  have same: "get_affector_storages fit (fold (rm_affector_entry b) slsb reg) a
      = get_affector_storages fit reg a" for a
    by (rule get_affector_storages_cong) (simp add: fold_rm_affector_entry_frame)
  from assms Inr show ?thesis
    by (auto simp: inv_registered_def unregister_affector_Inr [OF Inr] same
        fold_rm_affector_entry_data)
qed

lemma inv_registered_stored: "inv_registered fit reg R = (\<forall>a\<in>R. stored fit reg a)"
  by (simp add: inv_registered_def stored_def)

lemma stored_item_self:
  assumes "tgt_filter (modifier a) = Filter_item" and "tgt_domain (modifier a) = Domain_self"
  shows "stored fit reg a \<longleftrightarrow>
     (if carrier_item a \<in> affectee reg
      then a \<in> get_data (affector_item_active reg) (carrier_item a)
      else a \<in> get_data (affector_item_awaitable reg) (carrier_item a))"
  using assms
  by (simp add: stored_def get_affector_storages_def get_affector_storages_item_def
      get_affector_storages_item_self_def)

lemma stored_item_ship:
  assumes "tgt_filter (modifier a) = Filter_item" and "tgt_domain (modifier a) = Domain_ship"
  shows "stored fit reg a \<longleftrightarrow>
     (case current_ship fit of
        Some ship \<Rightarrow>
          if ship \<in> affectee reg then a \<in> get_data (affector_item_active reg) ship
          else a \<in> get_data (affector_item_awaitable reg) (carrier_item a)
      | None \<Rightarrow> a \<in> get_data (affector_item_awaitable reg) (carrier_item a))"
  using assms
  by (simp add: stored_def get_affector_storages_def get_affector_storages_item_def
      get_affector_storages_item_ship_def split: option.splits)

lemma stored_item_character:
  assumes "tgt_filter (modifier a) = Filter_item" and "tgt_domain (modifier a) = Domain_character"
  shows "stored fit reg a \<longleftrightarrow>
     (case current_char fit of
        Some character \<Rightarrow>
          if character \<in> affectee reg then a \<in> get_data (affector_item_active reg) character
          else a \<in> get_data (affector_item_awaitable reg) (carrier_item a)
      | None \<Rightarrow> a \<in> get_data (affector_item_awaitable reg) (carrier_item a))"
  using assms
  by (simp add: stored_def get_affector_storages_def get_affector_storages_item_def
      get_affector_storages_item_character_def split: option.splits)

lemma stored_item_other:
  assumes "tgt_filter (modifier a) = Filter_item" and "tgt_domain (modifier a) = Domain_other"
  shows "stored fit reg a \<longleftrightarrow>
     a \<in> get_data (affector_item_other reg) (carrier_item a)
     \<and> (\<forall>x \<in> set (others fit (carrier_item a)).
          x \<in> affectee reg \<longrightarrow> a \<in> get_data (affector_item_active reg) x)"
  using assms
  by (auto simp: stored_def get_affector_storages_def get_affector_storages_item_def
      get_affector_storages_item_other_def get_registered_affectees_def)

lemma stored_item_unknown:
  assumes "tgt_filter (modifier a) = Filter_item" and "tgt_domain (modifier a) = Domain_unknown n"
  shows "stored fit reg a"
  using assms
  by (simp add: stored_def get_affector_storages_def get_affector_storages_item_def)

lemma stored_broadcast_cong:
  assumes "tgt_filter (modifier a) \<noteq> Filter_item"
    and "affector_domain reg' = affector_domain reg"
    and "affector_domain_group reg' = affector_domain_group reg"
    and "affector_domain_skillrq reg' = affector_domain_skillrq reg"
    and "affector_owner_skillrq reg' = affector_owner_skillrq reg"
  shows "stored fit reg' a = stored fit reg a"
  using assms
  by (cases "tgt_filter (modifier a)")
    (auto simp: stored_def get_affector_storages_def get_affector_storages_domain_def
      get_affector_storages_domain_group_def get_affector_storages_domain_skillrq_def
      get_affector_storages_owner_skillrq_def split: sum.splits)

lemma stored_register_affectee:
  assumes inv: "register_inv fit reg" and st: "stored fit reg a"
  shows "stored fit (register_affectee fit reg x) a"
proof (cases "tgt_filter (modifier a) = Filter_item")
  case False
  with st show ?thesis
    by (simp add: stored_broadcast_cong [OF False register_affectee_frame(3-6)])
next
  case True
  let ?reg1 = "register_affectee fit reg x"
  let ?c = "carrier_item a"
  have mono: "b \<in> get_data (affector_item_active reg) k \<Longrightarrow>
      b \<in> get_data (affector_item_active ?reg1) k" for b k
    by (auto simp: register_affectee_active_data)
  have activated: "b \<in> awaitable_to_activate fit reg x \<union> other_to_activate fit reg x \<Longrightarrow>
      b \<in> get_data (affector_item_active ?reg1) x" for b
    by (auto simp: register_affectee_active_data)
  have kept: "b \<in> get_data (affector_item_awaitable reg) k \<Longrightarrow>
      b \<notin> awaitable_to_activate fit reg x \<Longrightarrow>
      b \<in> get_data (affector_item_awaitable ?reg1) k" for b k
    by (simp add: register_affectee_awaitable get_data_rm_data_entries)
  from inv have key: "b \<in> get_data (affector_item_awaitable reg) k \<Longrightarrow> carrier_item b = k" for b k
    by (auto simp: register_inv_def inv_awaitable_def)
  show ?thesis
  proof (cases "tgt_domain (modifier a)")
    case Domain_self
    show ?thesis
    proof (cases "?c \<in> affectee reg")
      case yes: True
      with st True Domain_self show ?thesis
        by (simp add: stored_item_self register_affectee_frame mono)
    next
      case no: False
      with st True Domain_self have aw: "a \<in> get_data (affector_item_awaitable reg) ?c"
        by (simp add: stored_item_self)
      show ?thesis
      proof (cases "?c = x")
        case True
        with aw have "a \<in> get_data (affector_item_awaitable reg) x" by simp
        with Domain_self have "a \<in> awaitable_to_activate fit reg x"
          unfolding awaitable_to_activate_iff by blast
        then have "a \<in> get_data (affector_item_active ?reg1) x"
          by (simp add: activated)
        with True \<open>tgt_filter (modifier a) = Filter_item\<close> Domain_self show ?thesis
          by (simp add: stored_item_self register_affectee_frame)
      next
        case False
        have "a \<notin> awaitable_to_activate fit reg x"
        proof
          assume "a \<in> awaitable_to_activate fit reg x"
          with Domain_self have "a \<in> get_data (affector_item_awaitable reg) x"
            unfolding awaitable_to_activate_iff by auto
          from key [OF this] False show False by simp
        qed
        with aw have "a \<in> get_data (affector_item_awaitable ?reg1) ?c"
          by (rule kept)
        with no False \<open>tgt_filter (modifier a) = Filter_item\<close> Domain_self show ?thesis
          by (simp add: stored_item_self register_affectee_frame)
      qed
    qed
  next
    case Domain_ship
    show ?thesis
    proof (cases "\<exists>s. current_ship fit = Some s \<and> s \<in> affectee reg")
      case yes: True
      then obtain s where s: "current_ship fit = Some s" "s \<in> affectee reg" by blast
      with st True Domain_ship have "a \<in> get_data (affector_item_active reg) s"
        by (simp add: stored_item_ship)
      then have "a \<in> get_data (affector_item_active ?reg1) s" by (rule mono)
      with s True Domain_ship show ?thesis
        by (simp add: stored_item_ship register_affectee_frame)
    next
      case no: False
      with st True Domain_ship have aw: "a \<in> get_data (affector_item_awaitable reg) ?c"
        by (auto simp: stored_item_ship split: option.splits)
      show ?thesis
      proof (cases "current_ship fit = Some x")
        case True
        with aw Domain_ship have "a \<in> awaitable_to_activate fit reg x"
          unfolding awaitable_to_activate_iff by auto
        then have "a \<in> get_data (affector_item_active ?reg1) x"
          by (simp add: activated)
        with True \<open>tgt_filter (modifier a) = Filter_item\<close> Domain_ship show ?thesis
          by (simp add: stored_item_ship register_affectee_frame)
      next
        case False
        with Domain_ship have "a \<notin> awaitable_to_activate fit reg x"
          unfolding awaitable_to_activate_iff by auto
        with aw have "a \<in> get_data (affector_item_awaitable ?reg1) ?c"
          by (rule kept)
        with no False \<open>tgt_filter (modifier a) = Filter_item\<close> Domain_ship show ?thesis
          by (auto simp: stored_item_ship register_affectee_frame split: option.splits)
      qed
    qed
  next
    case Domain_character
    show ?thesis
    proof (cases "\<exists>s. current_char fit = Some s \<and> s \<in> affectee reg")
      case yes: True
      then obtain s where s: "current_char fit = Some s" "s \<in> affectee reg" by blast
      with st True Domain_character have "a \<in> get_data (affector_item_active reg) s"
        by (simp add: stored_item_character)
      then have "a \<in> get_data (affector_item_active ?reg1) s" by (rule mono)
      with s True Domain_character show ?thesis
        by (simp add: stored_item_character register_affectee_frame)
    next
      case no: False
      with st True Domain_character have aw: "a \<in> get_data (affector_item_awaitable reg) ?c"
        by (auto simp: stored_item_character split: option.splits)
      show ?thesis
      proof (cases "current_char fit = Some x")
        case True
        with aw Domain_character have "a \<in> awaitable_to_activate fit reg x"
          unfolding awaitable_to_activate_iff by auto
        then have "a \<in> get_data (affector_item_active ?reg1) x"
          by (simp add: activated)
        with True \<open>tgt_filter (modifier a) = Filter_item\<close> Domain_character show ?thesis
          by (simp add: stored_item_character register_affectee_frame)
      next
        case False
        with Domain_character have "a \<notin> awaitable_to_activate fit reg x"
          unfolding awaitable_to_activate_iff by auto
        with aw have "a \<in> get_data (affector_item_awaitable ?reg1) ?c"
          by (rule kept)
        with no False \<open>tgt_filter (modifier a) = Filter_item\<close> Domain_character show ?thesis
          by (auto simp: stored_item_character register_affectee_frame split: option.splits)
      qed
    qed
  next
    case Domain_other
    with st True have oth: "a \<in> get_data (affector_item_other reg) ?c"
      and act: "\<And>y. y \<in> set (others fit ?c) \<Longrightarrow> y \<in> affectee reg \<Longrightarrow>
                  a \<in> get_data (affector_item_active reg) y"
      by (simp_all add: stored_item_other)
    have "a \<in> get_data (affector_item_active ?reg1) y"
      if "y \<in> set (others fit ?c)" and "y \<in> insert x (affectee reg)" for y
    proof (cases "y = x")
      case True
      with that oth have "a \<in> other_to_activate fit reg x"
        by (auto simp: other_to_activate_iff)
      with True show ?thesis by (simp add: activated)
    next
      case False
      with that act show ?thesis by (simp add: mono)
    qed
    with oth True Domain_other show ?thesis
      by (simp add: stored_item_other register_affectee_frame)
  next
    case (Domain_unknown n)
    with True show ?thesis by (simp add: stored_item_unknown)
  qed
qed

lemma stored_unregister_affectee:
  assumes st: "stored fit reg a"
  shows "stored fit (unregister_affectee fit reg x) a"
proof (cases "tgt_filter (modifier a) = Filter_item")
  case False
  with st show ?thesis
    by (simp add: stored_broadcast_cong [OF False unregister_affectee_affector_fields(4-7)])
next
  case True
  let ?reg2 = "unregister_affectee fit reg x"
  let ?c = "carrier_item a"
  have other_key: "k \<noteq> x \<Longrightarrow>
      get_data (affector_item_active ?reg2) k = get_data (affector_item_active reg) k" for k
    by (simp add: unregister_affectee_affector_fields get_data_simps)
  have kept: "b \<in> get_data (affector_item_awaitable reg) k \<Longrightarrow>
      b \<in> get_data (affector_item_awaitable ?reg2) k" for b k
    by (simp add: unregister_affectee_affector_fields get_data_add_data_entries)
  have demoted: "b \<in> get_data (affector_item_active reg) x \<Longrightarrow>
      tgt_domain (modifier b) = Domain_ship \<or> tgt_domain (modifier b) = Domain_character
        \<or> tgt_domain (modifier b) = Domain_self \<Longrightarrow>
      b \<in> get_data (affector_item_awaitable ?reg2) (carrier_item b)" for b
    by (simp add: unregister_affectee_affector_fields get_data_add_data_entries)
  show ?thesis
  proof (cases "tgt_domain (modifier a)")
    case Domain_self
    show ?thesis
    proof (cases "?c \<in> affectee reg - {x}")
      case yes: True
      with st True Domain_self have "a \<in> get_data (affector_item_active reg) ?c"
        by (simp add: stored_item_self)
      with yes have "a \<in> get_data (affector_item_active ?reg2) ?c" by (simp add: other_key)
      with yes True Domain_self show ?thesis
        by (simp add: stored_item_self unregister_affectee_affectee)
    next
      case no: False
      have "a \<in> get_data (affector_item_awaitable ?reg2) ?c"
      proof (cases "?c \<in> affectee reg")
        case True
        with no have "?c = x" by simp
        with st True \<open>tgt_filter (modifier a) = Filter_item\<close> Domain_self
        have "a \<in> get_data (affector_item_active reg) x"
          by (simp add: stored_item_self)
        with Domain_self have "a \<in> get_data (affector_item_awaitable ?reg2) (carrier_item a)"
          by (simp add: demoted)
        then show ?thesis .
      next
        case False
        with st \<open>tgt_filter (modifier a) = Filter_item\<close> Domain_self
        have "a \<in> get_data (affector_item_awaitable reg) ?c"
          by (simp add: stored_item_self)
        then show ?thesis by (rule kept)
      qed
      with no True Domain_self show ?thesis
        by (auto simp: stored_item_self unregister_affectee_affectee)
    qed
  next
    case Domain_ship
    show ?thesis
    proof (cases "\<exists>s. current_ship fit = Some s \<and> s \<in> affectee reg - {x}")
      case yes: True
      then obtain s where s: "current_ship fit = Some s" "s \<in> affectee reg" "s \<noteq> x" by blast
      with st True Domain_ship have "a \<in> get_data (affector_item_active reg) s"
        by (simp add: stored_item_ship)
      with s have "a \<in> get_data (affector_item_active ?reg2) s" by (simp add: other_key)
      with s True Domain_ship show ?thesis
        by (simp add: stored_item_ship unregister_affectee_affectee)
    next
      case no: False
      have "a \<in> get_data (affector_item_awaitable ?reg2) ?c"
      proof (cases "\<exists>s. current_ship fit = Some s \<and> s \<in> affectee reg")
        case True
        with no have "current_ship fit = Some x" "x \<in> affectee reg" by auto
        with st \<open>tgt_filter (modifier a) = Filter_item\<close> Domain_ship
        have "a \<in> get_data (affector_item_active reg) x"
          by (simp add: stored_item_ship)
        with Domain_ship show ?thesis by (simp add: demoted)
      next
        case False
        with st \<open>tgt_filter (modifier a) = Filter_item\<close> Domain_ship
        have "a \<in> get_data (affector_item_awaitable reg) ?c"
          by (auto simp: stored_item_ship split: option.splits)
        then show ?thesis by (rule kept)
      qed
      with no True Domain_ship show ?thesis
        by (auto simp: stored_item_ship unregister_affectee_affectee split: option.splits)
    qed
  next
    case Domain_character
    show ?thesis
    proof (cases "\<exists>s. current_char fit = Some s \<and> s \<in> affectee reg - {x}")
      case yes: True
      then obtain s where s: "current_char fit = Some s" "s \<in> affectee reg" "s \<noteq> x" by blast
      with st True Domain_character have "a \<in> get_data (affector_item_active reg) s"
        by (simp add: stored_item_character)
      with s have "a \<in> get_data (affector_item_active ?reg2) s" by (simp add: other_key)
      with s True Domain_character show ?thesis
        by (simp add: stored_item_character unregister_affectee_affectee)
    next
      case no: False
      have "a \<in> get_data (affector_item_awaitable ?reg2) ?c"
      proof (cases "\<exists>s. current_char fit = Some s \<and> s \<in> affectee reg")
        case True
        with no have "current_char fit = Some x" "x \<in> affectee reg" by auto
        with st \<open>tgt_filter (modifier a) = Filter_item\<close> Domain_character
        have "a \<in> get_data (affector_item_active reg) x"
          by (simp add: stored_item_character)
        with Domain_character show ?thesis by (simp add: demoted)
      next
        case False
        with st \<open>tgt_filter (modifier a) = Filter_item\<close> Domain_character
        have "a \<in> get_data (affector_item_awaitable reg) ?c"
          by (auto simp: stored_item_character split: option.splits)
        then show ?thesis by (rule kept)
      qed
      with no True Domain_character show ?thesis
        by (auto simp: stored_item_character unregister_affectee_affectee split: option.splits)
    qed
  next
    case Domain_other
    with st True have oth: "a \<in> get_data (affector_item_other reg) ?c"
      and act: "\<And>y. y \<in> set (others fit ?c) \<Longrightarrow> y \<in> affectee reg \<Longrightarrow>
                  a \<in> get_data (affector_item_active reg) y"
      by (simp_all add: stored_item_other)
    have "a \<in> get_data (affector_item_active ?reg2) y"
      if "y \<in> set (others fit ?c)" and "y \<in> affectee reg - {x}" for y
      using that act [of y] by (simp add: other_key)
    with oth True Domain_other show ?thesis
      by (simp add: stored_item_other unregister_affectee_affectee
          unregister_affectee_affector_fields)
  next
    case (Domain_unknown n)
    with True show ?thesis by (simp add: stored_item_unknown)
  qed
qed

lemma inv_registered_init: "inv_registered fit init_register {}"
  by (simp add: inv_registered_def)

lemma reachable_inv_registered: "reachable fit reg R \<Longrightarrow> inv_registered fit reg R"
proof (induction rule: reachable.induct)
  case reachable_init
  show ?case by (rule inv_registered_init)
next
  case (reachable_register_affectee reg R x)
  then show ?case
    by (simp add: inv_registered_stored stored_register_affectee reachable_register_inv)
next
  case (reachable_unregister_affectee reg R x)
  then show ?case
    by (simp add: inv_registered_stored stored_unregister_affectee)
next
  case (reachable_register_affector reg R a)
  then show ?case by (simp add: inv_registered_register_affector)
next
  case (reachable_unregister_affector reg R a)
  then show ?case by (simp add: inv_registered_unregister_affector)
qed

section \<open>Affectees and affectors agree\<close>

lemma get_affectee_storages_iff:
  "In_affectee_domain d \<in> set (get_affectee_storages fit x) \<longleftrightarrow>
     modifier_domain fit x = Some d"
  "In_affectee_domain_group k \<in> set (get_affectee_storages fit x) \<longleftrightarrow>
     (\<exists>d g. k = (d, Some g) \<and> modifier_domain fit x = Some d \<and> group_id fit x = Some g)"
  "In_affectee_domain_skillrq k \<in> set (get_affectee_storages fit x) \<longleftrightarrow>
     (\<exists>d s. k = (d, Some s) \<and> modifier_domain fit x = Some d
            \<and> s \<in> set (required_skills fit x))"
  "In_affectee_owner_skillrq ks \<in> set (get_affectee_storages fit x) \<longleftrightarrow>
     (\<exists>s. ks = Some s \<and> owner_modifiable fit x \<and> s \<in> set (required_skills fit x))"
  by (cases "modifier_domain fit x"; cases "group_id fit x";
      auto simp: get_affectee_storages_def)+

lemma get_affectors_iff:
  "a \<in> get_affectors fit reg x \<longleftrightarrow>
     x \<in> affectee reg
     \<and> (a \<in> get_data (affector_item_active reg) x
        \<or> (\<exists>d. modifier_domain fit x = Some d
              \<and> (a \<in> get_data (affector_domain reg) d
                 \<or> a \<in> get_data (affector_domain_group reg) (d, group_id fit x)
                 \<or> (\<exists>s\<in>set (required_skills fit x).
                       a \<in> get_data (affector_domain_skillrq reg) (d, Some s))))
        \<or> owner_modifiable fit x
          \<and> (\<exists>s\<in>set (required_skills fit x).
                a \<in> get_data (affector_owner_skillrq reg) (Some s)))"
  by (auto simp: get_affectors_def split: option.splits)

lemma stored_broadcast:
  assumes "stored fit reg a" and "contextize_tgt_filter_domain fit a = Inr d"
  shows "tgt_filter (modifier a) = Filter_domain \<Longrightarrow> a \<in> get_data (affector_domain reg) d"
    and "tgt_filter (modifier a) = Filter_domain_group \<Longrightarrow>
          a \<in> get_data (affector_domain_group reg) (d, tgt_filter_extra_arg (modifier a))"
    and "tgt_filter (modifier a) = Filter_domain_skillrq \<Longrightarrow>
          a \<in> get_data (affector_domain_skillrq reg) (d, skill_type_id_of fit a)"
  using assms
  by (simp_all add: stored_def get_affector_storages_def get_affector_storages_domain_def
      get_affector_storages_domain_group_def get_affector_storages_domain_skillrq_def)

lemma stored_owner_skillrq:
  assumes "stored fit reg a" and "tgt_filter (modifier a) = Filter_owner_skillrq"
  shows "a \<in> get_data (affector_owner_skillrq reg) (skill_type_id_of fit a)"
  using assms
  by (simp add: stored_def get_affector_storages_def get_affector_storages_owner_skillrq_def)

lemma inv_affectees_data:
  assumes "inv_affectees fit reg"
  shows "x \<in> get_data (affectee_domain reg) d \<Longrightarrow>
           x \<in> affectee reg \<and> modifier_domain fit x = Some d"
    and "x \<in> get_data (affectee_domain_group reg) (d, g) \<Longrightarrow>
           x \<in> affectee reg \<and> modifier_domain fit x = Some d \<and> group_id fit x = g"
    and "x \<in> get_data (affectee_domain_skillrq reg) (d, g) \<Longrightarrow>
           x \<in> affectee reg \<and> modifier_domain fit x = Some d
           \<and> (\<exists>s\<in>set (required_skills fit x). g = Some s)"
    and "x \<in> get_data (affectee_owner_skillrq reg) g \<Longrightarrow>
           x \<in> affectee reg \<and> owner_modifiable fit x
           \<and> (\<exists>s\<in>set (required_skills fit x). g = Some s)"
proof -
  note inv = assms [unfolded inv_affectees_def, rule_format]
  show "x \<in> get_data (affectee_domain reg) d \<Longrightarrow>
           x \<in> affectee reg \<and> modifier_domain fit x = Some d"
    using inv [of x "In_affectee_domain d"] by (simp add: get_affectee_storages_iff)
  show "x \<in> get_data (affectee_domain_group reg) (d, g) \<Longrightarrow>
           x \<in> affectee reg \<and> modifier_domain fit x = Some d \<and> group_id fit x = g"
    using inv [of x "In_affectee_domain_group (d, g)"] by (auto simp: get_affectee_storages_iff)
  show "x \<in> get_data (affectee_domain_skillrq reg) (d, g) \<Longrightarrow>
           x \<in> affectee reg \<and> modifier_domain fit x = Some d
           \<and> (\<exists>s\<in>set (required_skills fit x). g = Some s)"
    using inv [of x "In_affectee_domain_skillrq (d, g)"]
    by (auto simp: get_affectee_storages_iff)
  show "x \<in> get_data (affectee_owner_skillrq reg) g \<Longrightarrow>
           x \<in> affectee reg \<and> owner_modifiable fit x
           \<and> (\<exists>s\<in>set (required_skills fit x). g = Some s)"
    using inv [of x "In_affectee_owner_skillrq g"] by (auto simp: get_affectee_storages_iff)
qed

lemma affectees_are_affected:
  assumes inv: "inv_affectees fit reg" and st: "stored fit reg a"
    and items: "affectees_getters fit reg a = Inr items" and x: "x \<in> items"
  shows "x \<in> affectee reg \<and> a \<in> get_affectors fit reg x"
proof (cases "tgt_filter (modifier a)")
  case Filter_item
  from items x Filter_item have reg: "x \<in> affectee reg"
    by (auto simp: affectees_getters_def get_affectees_item_def get_registered_affectees_def
        split: ModDomain.splits option.splits if_splits)
  have "a \<in> get_data (affector_item_active reg) x"
  proof (cases "tgt_domain (modifier a)")
    case Domain_self
    with items x Filter_item have "x = carrier_item a"
      by (auto simp: affectees_getters_def get_affectees_item_def get_registered_affectees_def
          split: if_splits)
    with st reg Filter_item Domain_self show ?thesis by (simp add: stored_item_self)
  next
    case Domain_character
    with items x Filter_item have "current_char fit = Some x"
      by (auto simp: affectees_getters_def get_affectees_item_def get_registered_affectees_def
          split: option.splits if_splits)
    with st reg Filter_item Domain_character show ?thesis by (simp add: stored_item_character)
  next
    case Domain_ship
    with items x Filter_item have "current_ship fit = Some x"
      by (auto simp: affectees_getters_def get_affectees_item_def get_registered_affectees_def
          split: option.splits if_splits)
    with st reg Filter_item Domain_ship show ?thesis by (simp add: stored_item_ship)
  next
    case Domain_other
    with items x Filter_item have "x \<in> set (others fit (carrier_item a))"
      by (auto simp: affectees_getters_def get_affectees_item_def get_registered_affectees_def)
    with st reg Filter_item Domain_other show ?thesis by (simp add: stored_item_other)
  next
    case (Domain_unknown n)
    with items Filter_item show ?thesis
      by (simp add: affectees_getters_def get_affectees_item_def)
  qed
  with reg show ?thesis by (simp add: get_affectors_iff)
next
  case Filter_domain
  with items obtain d where d: "contextize_tgt_filter_domain fit a = Inr d"
    and it: "items = get_data (affectee_domain reg) d"
    by (auto simp: affectees_getters_def get_affectees_domain_def split: sum.splits)
  from inv_affectees_data(1) [OF inv, of x d] x it
  have "x \<in> affectee reg" "modifier_domain fit x = Some d" by auto
  with stored_broadcast(1) [OF st d Filter_domain] show ?thesis
    by (simp add: get_affectors_iff)
next
  case Filter_domain_group
  with items obtain d where d: "contextize_tgt_filter_domain fit a = Inr d"
    and it: "items = get_data (affectee_domain_group reg)
                       (d, tgt_filter_extra_arg (modifier a))"
    by (auto simp: affectees_getters_def get_affectees_domain_group_def split: sum.splits)
  from inv_affectees_data(2) [OF inv, of x d "tgt_filter_extra_arg (modifier a)"] x it
  have "x \<in> affectee reg" "modifier_domain fit x = Some d"
    "group_id fit x = tgt_filter_extra_arg (modifier a)" by auto
  with stored_broadcast(2) [OF st d Filter_domain_group] show ?thesis
    by (simp add: get_affectors_iff)
next
  case Filter_domain_skillrq
  with items obtain d where d: "contextize_tgt_filter_domain fit a = Inr d"
    and it: "items = get_data (affectee_domain_skillrq reg) (d, skill_type_id_of fit a)"
    by (auto simp: affectees_getters_def get_affectees_domain_skillrq_def split: sum.splits)
  from inv_affectees_data(3) [OF inv, of x d "skill_type_id_of fit a"] x it
  obtain s where "x \<in> affectee reg" "modifier_domain fit x = Some d"
    "s \<in> set (required_skills fit x)" "skill_type_id_of fit a = Some s" by auto
  with stored_broadcast(3) [OF st d Filter_domain_skillrq] show ?thesis
    by (auto simp: get_affectors_iff)
next
  case Filter_owner_skillrq
  with items have it: "items = get_data (affectee_owner_skillrq reg) (skill_type_id_of fit a)"
    by (auto simp: affectees_getters_def get_affectees_owner_skillrq_def)
  from inv_affectees_data(4) [OF inv, of x "skill_type_id_of fit a"] x it
  obtain s where "x \<in> affectee reg" "owner_modifiable fit x"
    "s \<in> set (required_skills fit x)" "skill_type_id_of fit a = Some s" by auto
  with stored_owner_skillrq [OF st Filter_owner_skillrq] show ?thesis
    by (auto simp: get_affectors_iff)
next
  case (Filter_unknown n)
  with items show ?thesis by (simp add: affectees_getters_def)
qed

lemma reachable_bound_inv:
  "reachable_bound fit reg R \<Longrightarrow> register_inv fit reg \<and> inv_registered fit reg R"
proof (induction rule: reachable_bound.induct)
  case (bound_init fit)
  show ?case by (simp add: register_inv_init inv_registered_init)
next
  case (bound_register_affectee fit reg R x)
  then show ?case
    by (simp add: register_inv_register_affectee inv_registered_stored
        stored_register_affectee)
next
  case (bound_unregister_affectee fit reg R x)
  then show ?case
    by (simp add: register_inv_unregister_affectee inv_registered_stored
        stored_unregister_affectee)
next
  case (bound_register_affector fit reg R a)
  then show ?case
    by (simp add: register_inv_register_affector inv_registered_register_affector)
next
  case (bound_unregister_affector fit reg R a)
  then show ?case
    by (simp add: register_inv_unregister_affector inv_registered_unregister_affector)
next
  case (bound_rebind fit reg R fit')
  then show ?case
    by (simp add: register_inv_same_items inv_registered_def)
qed

lemma reachable_reachable_bound: "reachable fit reg R \<Longrightarrow> reachable_bound fit reg R"
  by (induction rule: reachable.induct) (auto intro: reachable_bound.intros)

lemma rebound_register_value:
  "rebound_register =
     init_register
       \<lparr>affectee := {7, 1},
        affector_item_active := [1 \<mapsto> {example_affector 3 Filter_item Domain_ship None}]\<rparr>"
proof -
  have ships: "register_affectee example_fit (register_affectee example_fit init_register 1) 7
      = init_register\<lparr>affectee := {7, 1}\<rparr>"
    by (simp add: register_affectee_def get_affectee_storages_def example_fit_simps
        init_register_def activate_direct_affectors_def
        awaitable_to_activate_def other_to_activate_def)
  show ?thesis
    unfolding rebound_register_def ships
    by (simp add: register_affector_def get_affector_storages_def
        get_affector_storages_item_def get_affector_storages_item_ship_def
        example_affector_simps example_fit_simps init_register_def
        add_data_entry_def get_data_def)
qed

text \<open>
  C1, as the claim states it, fails when the current ship is bound anew while an
  affector on the ship is registered: the affector stays with the first ship in
  \<open>affector_item_active\<close>, \<open>get_affectees\<close> resolves it to the new ship, item
  7, and \<open>get_affectors\<close> of item 7 does not return it.
\<close>

theorem rebound_ship_not_affected:
  "reachable_rebound example_fit rebound_register
   \<and> same_items example_fit (example_fit\<lparr>current_ship := Some 7\<rparr>)
   \<and> snd (register_affector example_fit
            (register_affectee example_fit (register_affectee example_fit init_register 1) 7)
            (example_affector 3 Filter_item Domain_ship None)) = []
   \<and> fst (get_affectees (example_fit\<lparr>current_ship := Some 7\<rparr>) rebound_register
            (example_affector 3 Filter_item Domain_ship None)) = {7}
   \<and> 7 \<in> affectee rebound_register
   \<and> example_affector 3 Filter_item Domain_ship None
     \<notin> get_affectors (example_fit\<lparr>current_ship := Some 7\<rparr>) rebound_register 7"
proof -
  have "reachable_rebound example_fit rebound_register"
    unfolding rebound_register_def
    by (intro reachable_rebound.intros same_items_refl)
  moreover have "same_items example_fit (example_fit\<lparr>current_ship := Some 7\<rparr>)"
    by (simp add: same_items_def)
  moreover have "snd (register_affector example_fit
            (register_affectee example_fit (register_affectee example_fit init_register 1) 7)
            (example_affector 3 Filter_item Domain_ship None)) = []"
    by (simp add: register_affector_def get_affector_storages_def
        get_affector_storages_item_def example_affector_simps)
  moreover have "fst (get_affectees (example_fit\<lparr>current_ship := Some 7\<rparr>) rebound_register
            (example_affector 3 Filter_item Domain_ship None)) = {7}"
    by (simp add: get_affectees_def affectees_getters_def get_affectees_item_def
        get_registered_affectees_def example_affector_simps rebound_register_value
        init_register_def)
  moreover have "7 \<in> affectee rebound_register"
    by (simp add: rebound_register_value init_register_def)
  moreover have "example_affector 3 Filter_item Domain_ship None
     \<notin> get_affectors (example_fit\<lparr>current_ship := Some 7\<rparr>) rebound_register 7"
    by (simp add: get_affectors_def rebound_register_value init_register_def
        example_fit_def get_data_def)
  ultimately show ?thesis by blast
qed

text \<open>
  C1, amended. In every register that the four operations have built, where the
  current ship, the current character and the \<open>other\<close> items were bound anew only
  at moments when this left every registered affector in the storages that
  \<open>get_affector_storages\<close> lists for it, for every affector that has been
  registered and not unregistered since, every item that \<open>get_affectees\<close> returns
  is in the affectee set, and the affector is among the \<open>get_affectors\<close> of that
  item.
\<close>

theorem get_affectees_get_affectors:
  assumes "reachable_bound fit reg R" and "a \<in> R"
  shows "fst (get_affectees fit reg a) \<subseteq> affectee reg
         \<and> (\<forall>x \<in> fst (get_affectees fit reg a). a \<in> get_affectors fit reg x)"
proof (cases "affectees_getters fit reg a")
  case (Inl e)
  then show ?thesis by (simp add: get_affectees_def)
next
  case (Inr items)
  from assms have "inv_affectees fit reg" and "stored fit reg a"
    using reachable_bound_inv [of fit reg R]
    by (simp_all add: register_inv_def inv_registered_stored)
  from affectees_are_affected [OF this Inr] Inr show ?thesis
    by (auto simp: get_affectees_def)
qed

lemma example_bound_register_reachable:
  "reachable_bound example_fit example_bound_register
     {example_affector 3 Filter_item Domain_ship None}"
proof -
  let ?fit0 = "example_fit\<lparr>current_ship := None\<rparr>"
  let ?a = "example_affector 3 Filter_item Domain_ship None"
  let ?reg = "fst (register_affector ?fit0 init_register ?a)"
  have "reachable_bound ?fit0 ?reg (insert ?a {})"
    by (intro reachable_bound.intros)
  moreover have "same_items ?fit0 example_fit"
    by (simp add: same_items_def example_fit_def)
  moreover have "\<forall>a\<in>insert ?a {}.
      get_affector_storages example_fit ?reg a = get_affector_storages ?fit0 ?reg a"
    by (simp add: get_affector_storages_def get_affector_storages_item_def
        get_affector_storages_item_ship_def example_affector_simps example_fit_simps
        register_affector_def init_register_def)
  ultimately have "reachable_bound example_fit ?reg (insert ?a {})"
    by (rule bound_rebind)
  then have "reachable_bound example_fit (register_affectee example_fit ?reg 1) (insert ?a {})"
    by (rule bound_register_affectee)
  then show ?thesis by (simp add: example_bound_register_def)
qed

text \<open>
  At the example fit, with the ship bound and registered after the affector on it:
  the affector affects the ship, and the ship names the affector.
\<close>

theorem get_affectees_get_affectors_witness:
  "fst (get_affectees example_fit example_bound_register
          (example_affector 3 Filter_item Domain_ship None)) = {1}
   \<and> 1 \<in> affectee example_bound_register
   \<and> example_affector 3 Filter_item Domain_ship None
     \<in> get_affectors example_fit example_bound_register 1"
proof -
  have "affectee example_bound_register = {1}"
    by (simp add: example_bound_register_def register_affectee_frame register_affector_def
        get_affector_storages_def get_affector_storages_item_def
        get_affector_storages_item_ship_def example_affector_simps init_register_def)
  then have items: "fst (get_affectees example_fit example_bound_register
          (example_affector 3 Filter_item Domain_ship None)) = {1}"
    by (simp add: get_affectees_def affectees_getters_def get_affectees_item_def
        get_registered_affectees_def example_affector_simps example_fit_simps)
  have "example_affector 3 Filter_item Domain_ship None
      \<in> {example_affector 3 Filter_item Domain_ship None}"
    by simp
  from get_affectees_get_affectors [OF example_bound_register_reachable this] items
  show ?thesis by simp
qed

section \<open>Activation state and context of an effect category\<close>

text \<open>
  C8. The infos that the build of an effect emits carry a state and a context that
  depend on the category of the effect only: \<open>offline\<close> and \<open>local\<close> for passive and
  system effects, \<open>online\<close> and \<open>local\<close> for online effects, \<open>active\<close> and
  \<open>local\<close> for active effects, \<open>active\<close> and \<open>projected\<close> for target effects,
  \<open>overload\<close> and \<open>local\<close> for overload effects; one info is emitted for each
  modification, with the status \<open>ok_full\<close>. For the categories area and dungeon the
  build returns the status \<open>error\<close> and no info.
\<close>

theorem build_state_context:
  "(category \<in> {Category_area, Category_dungeon} \<longrightarrow>
      build category modifications = ([], Status_error))
   \<and> (category \<notin> {Category_area, Category_dungeon} \<longrightarrow>
      snd (build category modifications) = Status_ok_full
      \<and> map info_modification (fst (build category modifications)) = modifications)
   \<and> (\<forall>info \<in> set (fst (build category modifications)).
        (category \<in> {Category_passive, Category_system} \<longrightarrow>
           info_state info = State_offline \<and> info_context info = Context_local)
        \<and> (category = Category_online \<longrightarrow>
           info_state info = State_online \<and> info_context info = Context_local)
        \<and> (category = Category_active \<longrightarrow>
           info_state info = State_active \<and> info_context info = Context_local)
        \<and> (category = Category_target \<longrightarrow>
           info_state info = State_active \<and> info_context info = Context_projected)
        \<and> (category = Category_overload \<longrightarrow>
           info_state info = State_overload \<and> info_context info = Context_local))"
  by (cases category) (auto simp: build_def category_table_def comp_def)

text \<open>
  The eight tests of \<^verbatim>\<open>testModLoc.py\<close> build an effect of each category id, 0 to 7,
  whose trees describe one modification (of attribute 1211 by attribute 1503).
\<close>

lemma build_testModLoc:
  "map (\<lambda>n. map_option (\<lambda>c. build c [(1211 :: int, 1503 :: int)]) (category_of_id n))
     [0, 1, 2, 3, 4, 5, 6, 7] =
     [Some ([\<lparr>info_state = State_offline, info_context = Context_local,
               info_modification = (1211, 1503)\<rparr>], Status_ok_full),
      Some ([\<lparr>info_state = State_active, info_context = Context_local,
               info_modification = (1211, 1503)\<rparr>], Status_ok_full),
      Some ([\<lparr>info_state = State_active, info_context = Context_projected,
               info_modification = (1211, 1503)\<rparr>], Status_ok_full),
      Some ([], Status_error),
      Some ([\<lparr>info_state = State_online, info_context = Context_local,
               info_modification = (1211, 1503)\<rparr>], Status_ok_full),
      Some ([\<lparr>info_state = State_overload, info_context = Context_local,
               info_modification = (1211, 1503)\<rparr>], Status_ok_full),
      Some ([], Status_error),
      Some ([\<lparr>info_state = State_offline, info_context = Context_local,
               info_modification = (1211, 1503)\<rparr>], Status_ok_full)]"
  by (simp add: category_of_id_def build_def category_table_def)

theorem build_state_context_witness:
  "build Category_area [(1211 :: int, 1503 :: int)] = ([], Status_error)
   \<and> snd (build Category_target [(1211 :: int, 1503 :: int)]) = Status_ok_full
   \<and> map info_modification (fst (build Category_target [(1211 :: int, 1503 :: int)]))
     = [(1211, 1503)]
   \<and> list_all (\<lambda>info. info_state info = State_active \<and> info_context info = Context_projected)
       (fst (build Category_target [(1211 :: int, 1503 :: int)]))"
  using build_state_context [of Category_area "[(1211 :: int, 1503 :: int)]"]
    build_state_context [of Category_target "[(1211 :: int, 1503 :: int)]"]
  by (simp add: list_all_iff)

section \<open>Exceptions in the simulation\<close>

text \<open>
  C7. When the simulation raises an exception, whichever it is, exactly one warning
  is logged, with the message \<^verbatim>\<open>unexpected exception, setting unsimulated resonances\<close>,
  and the RAH shows its unsimulated resonances; the resonances of the ship, which are
  between 0 and the maximum 1 as those of the RAH are, are then the products of its
  base resonances and the unsimulated resonances of the RAH.
\<close>

theorem rah_simulation_exception:
  assumes "simulation = Inl e"
    and "\<forall>t. 0 \<le> base t \<and> base t \<le> 1"
    and "\<forall>t. 0 \<le> unsimulated t \<and> unsimulated t \<le> 1"
  shows "snd (rah_resonances simulation unsimulated)
           = [Sim_warning ''unexpected exception, setting unsimulated resonances'']
         \<and> fst (rah_resonances simulation unsimulated) = unsimulated
         \<and> (\<forall>t. ship_resonance (base t) (fst (rah_resonances simulation unsimulated) t) 1
                  = base t * unsimulated t)"
proof -
  from assms(1) have rah: "rah_resonances simulation unsimulated
      = (unsimulated, [Sim_warning ''unexpected exception, setting unsimulated resonances''])"
    by (simp add: rah_resonances_def)
  have "ship_resonance (base t) (unsimulated t) 1 = base t * unsimulated t" for t
  proof -
    from assms(2,3) have "0 \<le> base t" "base t \<le> 1" "0 \<le> unsimulated t" "unsimulated t \<le> 1"
      by simp_all
    then have "0 \<le> base t * unsimulated t" "base t * unsimulated t \<le> 1"
      by (simp_all add: mult_le_one)
    then show ?thesis by (simp add: ship_resonance_def)
  qed
  with rah show ?thesis by simp
qed

text \<open>
  At the data of \<^verbatim>\<open>test_unexpected_exception\<close>, with a division by zero as the
  exception.
\<close>

theorem rah_simulation_exception_witness:
  "snd (rah_resonances (Inl ''ZeroDivisionError'') (\<lambda>t. 0.85))
     = [Sim_warning ''unexpected exception, setting unsimulated resonances'']
   \<and> map (fst (rah_resonances (Inl ''ZeroDivisionError'') (\<lambda>t. 0.85)))
       [Em, Thermal, Kinetic, Explosive] = [0.85, 0.85, 0.85, 0.85]
   \<and> map (\<lambda>t. ship_resonance (test_ship_resonances t)
                (fst (rah_resonances (Inl ''ZeroDivisionError'') (\<lambda>t. 0.85)) t) 1)
       [Em, Thermal, Kinetic, Explosive] = [0.425, 0.5525, 0.6375, 0.765]"
proof -
  have base: "\<forall>t. 0 \<le> test_ship_resonances t \<and> test_ship_resonances t \<le> 1"
    by (simp add: test_ship_resonances_def split: damage_type.splits)
  have unsim: "\<forall>t :: damage_type. (0 :: real) \<le> 0.85 \<and> (0.85 :: real) \<le> 1"
    by simp
  note th = rah_simulation_exception [OF refl base unsim, of "''ZeroDivisionError''"]
  from th have ship: "ship_resonance (test_ship_resonances t)
        (fst (rah_resonances (Inl ''ZeroDivisionError'') (\<lambda>t. 0.85)) t) 1
      = test_ship_resonances t * 0.85" for t
    by blast
  from th have rah:
    "snd (rah_resonances (Inl ''ZeroDivisionError'') (\<lambda>t. 0.85 :: real))
       = [Sim_warning ''unexpected exception, setting unsimulated resonances'']"
    "fst (rah_resonances (Inl ''ZeroDivisionError'') (\<lambda>t. 0.85 :: real)) = (\<lambda>t. 0.85)"
    by blast+
  from rah ship [of Em] ship [of Thermal] ship [of Kinetic] ship [of Explosive]
  show ?thesis by (simp add: test_ship_resonances_def)
qed

end
